theory Spec2Isabelle
  imports Main "HOL-Library.Sublist"
begin

section \<open>Data model of the seat service\<close>

text \<open>
  The records follow the TypeScript interfaces used by
  \<^verbatim>\<open>copilot-seat-service.ts\<close>. A field that the code tests for
  \<^verbatim>\<open>null\<close>/\<^verbatim>\<open>undefined\<close>, or that an object literal
  of the service leaves out, is an \<open>option\<close>; \<open>None\<close> stands for both
  \<^verbatim>\<open>null\<close> and \<^verbatim>\<open>undefined\<close>, which the code does not
  tell apart for that field. The name of a team is the exception: the catalog
  compares names with \<^verbatim>\<open>===\<close>, for which \<^verbatim>\<open>null\<close> and
  \<^verbatim>\<open>undefined\<close> differ, and a template string renders them
  differently, so it is a \<open>nullable\<close>. Only the fields the service reads
  are kept.
\<close>

datatype 'a nullable = Undefined | Null | Defined 'a

record GitHubTeam =
  team_id :: "int option"
  name :: "string nullable"
  parent_name :: "string option"

record GitHubUser =
  login :: string

record SeatAssignment =
  assignee :: GitHubUser
  assigning_team :: "GitHubTeam option"
  last_activity_at :: "string option"

record CopilotSeatsData =
  enterprise :: "string option"
  organization :: "string option"
  seats :: "SeatAssignment list"
  total_seats :: nat
  total_active_seats :: "nat option"
  page :: "nat option"
  has_next_page :: "bool option"
  last_update :: "string option"
  date :: "string option"
  doc_id :: "string option"

record IFilter =
  filter_date :: "int option"
  filter_enterprise :: string
  filter_organization :: string
  filter_team :: "string list"
  filter_page :: nat

text \<open>
  \<^verbatim>\<open>ServerActionResponse<T>\<close>: status \<^verbatim>\<open>"OK"\<close> with a response, or an
  error status with messages. The response of an \<open>OK\<close> is an \<open>option\<close>
  because the callers test \<^verbatim>\<open>!data.response\<close>; an object or an array,
  also an empty one, is truthy and is \<open>Some\<close>.
\<close>

datatype error_status = ERROR | NOT_FOUND | UNAUTHORIZED

type_synonym response_error = "error_status \<times> string list"

datatype 'a ServerActionResponse = OK "'a option" | Failed error_status "string list"

definition failed :: "response_error \<Rightarrow> 'a ServerActionResponse" where
  "failed e = Failed (fst e) (snd e)"

record GitHubConfig =
  env_enterprise :: string
  env_organization :: string
  token :: string
  version :: string

subsection \<open>The outside world\<close>

text \<open>
  A request of \<^verbatim>\<open>fetch\<close>, and what it resolves to. \<open>Rejected\<close> is a
  \<^verbatim>\<open>fetch\<close> that throws; the \<open>body\<close> of a response is what
  \<^verbatim>\<open>response.json()\<close> yields, \<open>Inl\<close> when it throws. Bodies are typed
  by endpoint, as the TypeScript reads them.
\<close>

record request =
  url :: string
  cache_mode :: "string option"
  headers :: "(string \<times> string) list"

record 'b http_response =
  ok :: bool
  status :: nat
  link_header :: "string option"
  body :: "string + 'b"

datatype 'b fetch_outcome = Rejected string | Fulfilled "'b http_response"

datatype param_value = PStr string | PNum nat

record SqlQuerySpec =
  query :: string
  parameters :: "(string \<times> param_value) list"

text \<open>
  Everything the service obtains from outside its own file is a field of the world:
  the JavaScript runtime (\<^verbatim>\<open>Date\<close> parsing, the local time zone adjustment
  \<open>LocalTZA\<close> of ECMAScript, \<^verbatim>\<open>date-fns\<close> formatting), the instants the
  system clock shows at each place the code reads it, the imported helpers whose
  source is not part of the service file, the document store and the network.
  A query of the store either throws (\<open>Inl\<close>, which also stands for a client
  that cannot be created) or yields its resources.
  The network answers a request knowing all requests made before it, so the
  server may answer the same URL differently each time.

  What the model takes for granted: \<^verbatim>\<open>ensureGitHubEnvConfig\<close> returns a
  value, the same at every call, and does not throw; a body that
  \<^verbatim>\<open>json()\<close> yields has the shape its endpoint documents; every instant
  lies in the range of \<^verbatim>\<open>Date\<close>; the date of a filter can be formatted.
\<close>

record world =
  Date_parse :: "string \<Rightarrow> int option"
  LocalTZA :: "int \<Rightarrow> bool \<Rightarrow> int"
  format_date :: "int \<Rightarrow> string"
  now_query :: int
  now_seat :: "nat \<Rightarrow> int"
  now_backfill :: int
  now_totals :: int
  ensureGitHubEnvConfig :: "response_error + GitHubConfig"
  cosmosConfiguration :: bool
  GITHUB_API_SCOPE :: "string option"
  stringIsNullOrEmpty :: "string \<Rightarrow> bool"
  unknownResponseError :: "string \<Rightarrow> response_error"
  formatResponseError :: "string \<Rightarrow> nat \<Rightarrow> response_error"
  localeCompare :: "string \<Rightarrow> string \<Rightarrow> int"
  seats_history :: "SqlQuerySpec \<Rightarrow> string + CopilotSeatsData list"
  teams_history :: "SqlQuerySpec \<Rightarrow> string + GitHubTeam list"
  fetch_seats :: "request list \<Rightarrow> request \<Rightarrow> (SeatAssignment list \<times> nat) fetch_outcome"
  fetch_members :: "request list \<Rightarrow> request \<Rightarrow> (string option list) fetch_outcome"
  fetch_teams :: "request list \<Rightarrow> request \<Rightarrow> (GitHubTeam list) fetch_outcome"

section \<open>Activity window\<close>

text \<open>
  \<^verbatim>\<open>const thirtyDaysAgo = new Date(); thirtyDaysAgo.setDate(thirtyDaysAgo.getDate() - 30);\<close>
  By ECMAScript, \<^verbatim>\<open>setDate\<close> moves to local time, replaces the day of the
  month and keeps the time within the day, and moves back to UTC. Replacing the
  day \<open>d\<close> of the month by \<open>d - 30\<close> takes exactly thirty days of
  \<open>msPerDay\<close> milliseconds off the local time value.
\<close>

definition msPerDay :: int where
  "msPerDay = 86400000"

definition LocalTime :: "world \<Rightarrow> int \<Rightarrow> int" where
  "LocalTime W t = t + LocalTZA W t True"

definition UTC :: "world \<Rightarrow> int \<Rightarrow> int" where
  "UTC W t = t - LocalTZA W t False"

definition thirtyDaysAgo :: "world \<Rightarrow> int \<Rightarrow> int" where
  "thirtyDaysAgo W now = UTC W (LocalTime W now - 30 * msPerDay)"

text \<open>
  The callback of every \<^verbatim>\<open>filter\<close> that counts active seats (lines 221-227,
  280-286, 574-578, 591-595 and 626-630 of the service):
  \<^verbatim>\<open>if (!seat.last_activity_at) return false;
  return new Date(seat.last_activity_at) >= thirtyDaysAgo;\<close>
  The empty string is falsy; a string that does not parse gives an invalid date,
  whose comparison is false.
\<close>

definition isActiveSeat :: "world \<Rightarrow> int \<Rightarrow> SeatAssignment \<Rightarrow> bool" where
  "isActiveSeat W threshold seat =
     (case last_activity_at seat of
        None \<Rightarrow> False
      | Some s \<Rightarrow>
          if s = [] then False
          else (case Date_parse W s of
                  None \<Rightarrow> False
                | Some lastActivityDate \<Rightarrow> threshold \<le> lastActivityDate))"

definition countActive :: "world \<Rightarrow> int \<Rightarrow> SeatAssignment list \<Rightarrow> nat" where
  "countActive W now ss = length (filter (isActiveSeat W (thirtyDaysAgo W now)) ss)"

section \<open>Link headers\<close>

text \<open>
  \<^verbatim>\<open>getNextUrlFromLinkHeader\<close> (lines 388-399) and the header test of
  \<^verbatim>\<open>getTeamMembers\<close> (lines 485-491).
  The two regular expressions the service applies to a \<^verbatim>\<open>Link\<close> header,
  \<^verbatim>\<open>/<([^>]+)>;\s*rel="([^"]+)"/\<close> and \<^verbatim>\<open>/<([^>]+)>;\s*rel="next"/\<close>,
  share the part up to the opening quote. At a given start the match is
  unique: a greedy class is followed by a character outside the class, so no
  shorter repetition can succeed. A header value is a byte string, and the
  bytes \<^verbatim>\<open>\s\<close> matches are the seven below.
\<close>

definition quote :: char where
  "quote = CHR 0x22"

definition isWhiteSpace :: "char \<Rightarrow> bool" where
  "isWhiteSpace c =
     (c \<in> set [CHR 0x09, CHR 0x0A, CHR 0x0B, CHR 0x0C, CHR 0x0D, CHR 0x20, CHR 0xA0])"

fun strip_prefix :: "string \<Rightarrow> string \<Rightarrow> string option" where
  "strip_prefix [] s = Some s"
| "strip_prefix (p # ps) [] = None"
| "strip_prefix (p # ps) (c # cs) = (if p = c then strip_prefix ps cs else None)"

definition matchLinkAt :: "string \<Rightarrow> (string \<times> string) option" where
  "matchLinkAt s =
     (case s of
        [] \<Rightarrow> None
      | c # r \<Rightarrow>
          if c \<noteq> CHR ''<'' then None
          else
            let u = takeWhile (\<lambda>x. x \<noteq> CHR ''>'') r;
                r1 = dropWhile (\<lambda>x. x \<noteq> CHR ''>'') r
            in if u = [] then None
               else (case strip_prefix ''>;'' r1 of
                       None \<Rightarrow> None
                     | Some r2 \<Rightarrow>
                         (case strip_prefix (''rel='' @ [quote]) (dropWhile isWhiteSpace r2) of
                            None \<Rightarrow> None
                          | Some r3 \<Rightarrow> Some (u, r3))))"

definition matchRelAt :: "string \<Rightarrow> (string \<times> string) option" where
  "matchRelAt s =
     (case matchLinkAt s of
        None \<Rightarrow> None
      | Some (u, r3) \<Rightarrow>
          let v = takeWhile (\<lambda>x. x \<noteq> quote) r3;
              r4 = dropWhile (\<lambda>x. x \<noteq> quote) r3
          in if v = [] \<or> r4 = [] then None else Some (u, v))"

definition matchNextAt :: "string \<Rightarrow> string option" where
  "matchNextAt s =
     (case matchLinkAt s of
        None \<Rightarrow> None
      | Some (u, r3) \<Rightarrow>
          (case strip_prefix (''next'' @ [quote]) r3 of
             None \<Rightarrow> None
           | Some r4 \<Rightarrow> Some u))"

text \<open>\<^verbatim>\<open>String.prototype.match\<close>: the match at the leftmost start that has one.\<close>

fun firstMatch :: "(string \<Rightarrow> 'a option) \<Rightarrow> string \<Rightarrow> 'a option" where
  "firstMatch m [] = m []"
| "firstMatch m (c # cs) =
     (case m (c # cs) of Some r \<Rightarrow> Some r | None \<Rightarrow> firstMatch m cs)"

text \<open>\<^verbatim>\<open>linkHeader.split(",")\<close>.\<close>

fun split_on :: "char \<Rightarrow> string \<Rightarrow> string list" where
  "split_on sep [] = [[]]"
| "split_on sep (c # cs) =
     (if c = sep then [] # split_on sep cs
      else (case split_on sep cs of
              [] \<Rightarrow> [[c]]
            | h # t \<Rightarrow> (c # h) # t))"

fun firstNextLink :: "string list \<Rightarrow> string option" where
  "firstNextLink [] = None"
| "firstNextLink (link # links) =
     (case firstMatch matchRelAt link of
        None \<Rightarrow> firstNextLink links
      | Some (u, rel) \<Rightarrow> if rel = ''next'' then Some u else firstNextLink links)"

definition getNextUrlFromLinkHeader :: "string option \<Rightarrow> string option" where
  "getNextUrlFromLinkHeader linkHeader =
     (case linkHeader of
        None \<Rightarrow> None
      | Some h \<Rightarrow> if h = [] then None else firstNextLink (split_on CHR '','' h))"

section \<open>Team membership resolver\<close>

text \<open>
  \<^verbatim>\<open>getTeamMembers\<close> (lines 458-501), \<^verbatim>\<open>getChildTeamMembers\<close>
  (lines 506-551) and \<^verbatim>\<open>filterSeatsByTeam\<close> (lines 406-453). Each catches
  what its requests throw and goes on with the members found so far.
  Every function that sends requests takes the list of the requests sent so
  far and returns it extended. The \<^verbatim>\<open>while\<close> loop of
  \<^verbatim>\<open>getTeamMembers\<close> runs as long as the server names a next page, so the
  model bounds the number of its iterations by \<open>fuel\<close> and returns \<open>None\<close>
  when the bound is reached with a page still to fetch.
\<close>

definition membersRequest :: "string \<Rightarrow> string \<Rightarrow> request" where
  "membersRequest tok u =
     \<lparr>url = u, cache_mode = None,
      headers = [(''Authorization'', ''token '' @ tok),
                 (''Accept'', ''application/vnd.github.v3+json'')]\<rparr>"

definition addLogins :: "string option list \<Rightarrow> string set \<Rightarrow> string set" where
  "addLogins members teamMembers =
     fold (\<lambda>member acc. case member of
                           None \<Rightarrow> acc
                         | Some l \<Rightarrow> if l = [] then acc else insert l acc)
          members teamMembers"

fun getTeamMembers_loop ::
  "world \<Rightarrow> nat \<Rightarrow> string \<Rightarrow> string option \<Rightarrow> string set \<Rightarrow> request list
     \<Rightarrow> (string set \<times> request list) option" where
  "getTeamMembers_loop W fuel tok None teamMembers log = Some (teamMembers, log)"
| "getTeamMembers_loop W 0 tok (Some u) teamMembers log =
     (if u = [] then Some (teamMembers, log) else None)"
| "getTeamMembers_loop W (Suc fuel) tok (Some u) teamMembers log =
     (if u = [] then Some (teamMembers, log)
      else
        let req = membersRequest tok u; log' = log @ [req]
        in case fetch_members W log req of
             Rejected e \<Rightarrow> Some (teamMembers, log')
           | Fulfilled response \<Rightarrow>
               if ok response then
                 (case body response of
                    Inl e \<Rightarrow> Some (teamMembers, log')
                  | Inr members \<Rightarrow>
                      getTeamMembers_loop W fuel tok
                        (case link_header response of
                           None \<Rightarrow> None
                         | Some h \<Rightarrow> if h = [] then None else firstMatch matchNextAt h)
                        (addLogins members teamMembers) log')
               else Some (teamMembers, log'))"

definition getTeamMembers ::
  "world \<Rightarrow> nat \<Rightarrow> string \<Rightarrow> string \<Rightarrow> string \<Rightarrow> string set \<Rightarrow> request list
     \<Rightarrow> (string set \<times> request list) option" where
  "getTeamMembers W fuel org tok teamName teamMembers log =
     getTeamMembers_loop W fuel tok
       (Some (''https://api.github.com/orgs/'' @ org @ ''/teams/'' @ teamName
                @ ''/members?per_page=100''))
       teamMembers log"

text \<open>
  \<^verbatim>\<open>for (const childTeam of childTeams)\<close>; a missing name is
  interpolated into the URL as \<^verbatim>\<open>undefined\<close> or \<^verbatim>\<open>null\<close>.
\<close>

fun childTeamsLoop ::
  "world \<Rightarrow> nat \<Rightarrow> string \<Rightarrow> string \<Rightarrow> GitHubTeam list \<Rightarrow> string set \<Rightarrow> request list
     \<Rightarrow> (string set \<times> request list) option" where
  "childTeamsLoop W fuel org tok [] teamMembers log = Some (teamMembers, log)"
| "childTeamsLoop W fuel org tok (childTeam # childTeams) teamMembers log =
     (case getTeamMembers W fuel org tok
             (case name childTeam of
                Undefined \<Rightarrow> ''undefined'' | Null \<Rightarrow> ''null'' | Defined n \<Rightarrow> n)
             teamMembers log of
        None \<Rightarrow> None
      | Some (teamMembers', log') \<Rightarrow> childTeamsLoop W fuel org tok childTeams teamMembers' log')"

definition getChildTeamMembers ::
  "world \<Rightarrow> nat \<Rightarrow> string \<Rightarrow> string \<Rightarrow> string \<Rightarrow> string set \<Rightarrow> request list
     \<Rightarrow> (string set \<times> request list) option" where
  "getChildTeamMembers W fuel org tok parentTeamName teamMembers log =
     (if parentTeamName = ''Birdeye_team'' then
        (case getTeamMembers W fuel org tok ''Insights_team'' teamMembers log of
           None \<Rightarrow> None
         | Some (teamMembers', log') \<Rightarrow>
             getTeamMembers W fuel org tok ''labs_team'' teamMembers' log')
      else
        let req = membersRequest tok (''https://api.github.com/orgs/'' @ org @ ''/teams?per_page=100'');
            log' = log @ [req]
        in case fetch_teams W log req of
             Rejected e \<Rightarrow> Some (teamMembers, log')
           | Fulfilled response \<Rightarrow>
               if ok response then
                 (case body response of
                    Inl e \<Rightarrow> Some (teamMembers, log')
                  | Inr allTeams \<Rightarrow>
                      childTeamsLoop W fuel org tok
                        (filter (\<lambda>team. parent_name team = Some parentTeamName) allTeams)
                        teamMembers log')
               else Some (teamMembers, log'))"

text \<open>\<^verbatim>\<open>for (const teamName of teamFilter)\<close> of \<^verbatim>\<open>filterSeatsByTeam\<close>.\<close>

fun teamFilterLoop ::
  "world \<Rightarrow> nat \<Rightarrow> string \<Rightarrow> string \<Rightarrow> string list \<Rightarrow> string set \<Rightarrow> request list
     \<Rightarrow> (string set \<times> request list) option" where
  "teamFilterLoop W fuel org tok [] teamMembers log = Some (teamMembers, log)"
| "teamFilterLoop W fuel org tok (teamName # teamFilter) teamMembers log =
     (case getTeamMembers W fuel org tok teamName teamMembers log of
        None \<Rightarrow> None
      | Some (m1, log1) \<Rightarrow>
          (case getChildTeamMembers W fuel org tok teamName m1 log1 of
             None \<Rightarrow> None
           | Some (m2, log2) \<Rightarrow> teamFilterLoop W fuel org tok teamFilter m2 log2))"

text \<open>
  The callback of the first \<^verbatim>\<open>filter\<close>:
  \<^verbatim>\<open>seat.assigning_team?.name && teamFilter.includes(seat.assigning_team.name)\<close>.
\<close>

definition hasRequestedTeam :: "string list \<Rightarrow> SeatAssignment \<Rightarrow> bool" where
  "hasRequestedTeam teamFilter seat =
     (case assigning_team seat of
        None \<Rightarrow> False
      | Some team \<Rightarrow>
          (case name team of
             Undefined \<Rightarrow> False
           | Null \<Rightarrow> False
           | Defined n \<Rightarrow> n \<noteq> [] \<and> n \<in> set teamFilter))"

definition filterSeatsByTeam ::
  "world \<Rightarrow> nat \<Rightarrow> SeatAssignment list \<Rightarrow> string list \<Rightarrow> request list
     \<Rightarrow> (SeatAssignment list \<times> request list) option" where
  "filterSeatsByTeam W fuel seatList teamFilter log =
     (let seatsWithTeams = filter (hasRequestedTeam teamFilter) seatList
      in if seatsWithTeams \<noteq> [] then Some (seatsWithTeams, log)
         else (case ensureGitHubEnvConfig W of
                 Inl e \<Rightarrow> Some ([], log)
               | Inr env \<Rightarrow>
                   (case teamFilterLoop W fuel (env_organization env) (token env)
                           teamFilter {} log of
                      None \<Rightarrow> None
                    | Some (teamMembers, log') \<Rightarrow>
                        Some (filter (\<lambda>seat. login (assignee seat) \<in> teamMembers) seatList,
                              log'))))"

text \<open>
  A lookup that fails in the sense of the resolver: the request is rejected, the
  response has an error status, or its body cannot be read.
\<close>

definition lookupFails :: "'b fetch_outcome \<Rightarrow> bool" where
  "lookupFails outcome =
     (case outcome of
        Rejected e \<Rightarrow> True
      | Fulfilled response \<Rightarrow> \<not> ok response \<or> isl (body response))"

section \<open>Seat aggregator\<close>

text \<open>
  \<^verbatim>\<open>uniqueSeatsMap\<close> is a JavaScript \<^verbatim>\<open>Map\<close>, which keeps its keys
  in insertion order: an association list that is only appended to.
\<close>

definition setIfAbsent ::
  "SeatAssignment \<Rightarrow> (string \<times> SeatAssignment) list \<Rightarrow> (string \<times> SeatAssignment) list" where
  "setIfAbsent seat uniqueSeatsMap =
     (if login (assignee seat) \<in> fst ` set uniqueSeatsMap then uniqueSeatsMap
      else uniqueSeatsMap @ [(login (assignee seat), seat)])"

definition uniqueSeats :: "SeatAssignment list \<Rightarrow> SeatAssignment list" where
  "uniqueSeats filteredSeats = map snd (fold setIfAbsent filteredSeats [])"

text \<open>
  \<^verbatim>\<open>if (teamFilter && teamFilter.length > 0)
  filteredSeats = await filterSeatsByTeam(..., teamFilter)\<close>, which both branches of
  the aggregator contain.
\<close>

definition applyTeamFilter ::
  "world \<Rightarrow> nat \<Rightarrow> SeatAssignment list \<Rightarrow> string list option \<Rightarrow> request list
     \<Rightarrow> (SeatAssignment list \<times> request list) option" where
  "applyTeamFilter W fuel seatList teamFilter log =
     (case teamFilter of
        None \<Rightarrow> Some (seatList, log)
      | Some ts \<Rightarrow> if ts \<noteq> [] then filterSeatsByTeam W fuel seatList ts log
                  else Some (seatList, log))"

definition emptyAggregate :: CopilotSeatsData where
  "emptyAggregate =
     \<lparr>enterprise = None, organization = None, seats = [], total_seats = 0,
      total_active_seats = Some 0, page = None, has_next_page = None,
      last_update = None, date = None, doc_id = None\<rparr>"

text \<open>
  \<^verbatim>\<open>aggregateSeatsData\<close> (lines 553-646) assigns to
  \<^verbatim>\<open>data[0].total_active_seats\<close>,
  so the model returns, with the aggregated record, the input array as the
  call leaves it, and the request log.
\<close>

definition aggregateSeatsData ::
  "world \<Rightarrow> nat \<Rightarrow> CopilotSeatsData list \<Rightarrow> string list option \<Rightarrow> request list
     \<Rightarrow> ((CopilotSeatsData \<times> CopilotSeatsData list) \<times> request list) option" where
  "aggregateSeatsData W fuel data teamFilter log =
     (case data of
        [] \<Rightarrow> Some ((emptyAggregate, []), log)
      | d # rest \<Rightarrow>
          let d0 = (if total_active_seats d = None
                    then d\<lparr>total_active_seats :=
                             Some (countActive W (now_backfill W) (seats d))\<rparr>
                    else d);
              data' = d0 # rest
          in if rest = [] then
               (case applyTeamFilter W fuel (seats d0) teamFilter log of
                  None \<Rightarrow> None
                | Some (filteredSeats, log') \<Rightarrow>
                    Some ((d0\<lparr>total_seats := length filteredSeats,
                               total_active_seats :=
                                 Some (countActive W (now_totals W) filteredSeats),
                               seats := filteredSeats\<rparr>,
                           data'), log'))
             else
               (case applyTeamFilter W fuel (concat (map seats data')) teamFilter log of
                  None \<Rightarrow> None
                | Some (filteredSeats, log') \<Rightarrow>
                    let uniq = uniqueSeats filteredSeats
                    in Some ((\<lparr>enterprise = enterprise d0,
                                organization = organization d0,
                                seats = uniq,
                                total_seats = length uniq,
                                total_active_seats =
                                  Some (countActive W (now_totals W) uniq),
                                page = page d0,
                                has_next_page = Some False,
                                last_update = last_update d0,
                                date = date d0,
                                doc_id = doc_id d0\<rparr>,
                              data'), log')))"

text \<open>
  The spec's words for the deduplication: remove duplicates by
  \<open>assignee.login\<close>, keeping the first occurrence.
\<close>

fun keepFirstByLogin :: "SeatAssignment list \<Rightarrow> SeatAssignment list" where
  "keepFirstByLogin [] = []"
| "keepFirstByLogin (x # xs) =
     x # keepFirstByLogin (filter (\<lambda>y. login (assignee y) \<noteq> login (assignee x)) xs)"

section \<open>Historical store\<close>

text \<open>
  \<^verbatim>\<open>getDataFromDatabase\<close> (lines 54-140) and
  \<^verbatim>\<open>getCopilotSeatsFromDatabase\<close> (lines 142-164). The query text is built as
  the code builds it; \<open>string_of_nat\<close> renders the index of
  \<^verbatim>\<open>@team${index}\<close>.
\<close>

fun string_of_nat :: "nat \<Rightarrow> string" where
  "string_of_nat n =
     (if n < 10 then [char_of (48 + n)]
      else string_of_nat (n div 10) @ [char_of (48 + n mod 10)])"

declare string_of_nat.simps [simp del]

fun join_with :: "string \<Rightarrow> string list \<Rightarrow> string" where
  "join_with sep [] = []"
| "join_with sep [x] = x"
| "join_with sep (x # y # r) = x @ sep @ join_with sep (y # r)"

fun str_includes :: "string \<Rightarrow> string \<Rightarrow> bool" where
  "str_includes [] sub = (sub = [])"
| "str_includes (c # cs) sub = (prefix sub (c # cs) \<or> str_includes cs sub)"

text \<open>
  \<^verbatim>\<open>query.replace(/ AND c.page = @page/, "")\<close>: the pattern is a list of
  characters in which \<open>None\<close> is the dot, matching any character but a line
  terminator; the first match is removed.
\<close>

definition pagePattern :: "char option list" where
  "pagePattern = map Some '' AND c'' @ [None] @ map Some ''page = @page''"

fun matchesAt :: "char option list \<Rightarrow> string \<Rightarrow> bool" where
  "matchesAt [] s = True"
| "matchesAt (p # ps) [] = False"
| "matchesAt (p # ps) (c # cs) =
     ((case p of None \<Rightarrow> c \<noteq> CHR 0x0A \<and> c \<noteq> CHR 0x0D | Some x \<Rightarrow> x = c)
      \<and> matchesAt ps cs)"

fun removeFirst :: "char option list \<Rightarrow> string \<Rightarrow> string" where
  "removeFirst pat [] = []"
| "removeFirst pat (c # cs) =
     (if matchesAt pat (c # cs) then drop (length pat) (c # cs)
      else c # removeFirst pat cs)"

text \<open>\<^verbatim>\<open>querySpec.query += ...; querySpec.parameters?.push(...)\<close>.\<close>

definition addClause ::
  "string \<Rightarrow> (string \<times> param_value) list \<Rightarrow> SqlQuerySpec \<Rightarrow> SqlQuerySpec" where
  "addClause clause ps q = q\<lparr>query := query q @ clause, parameters := parameters q @ ps\<rparr>"

definition queryDate :: "world \<Rightarrow> IFilter \<Rightarrow> string" where
  "queryDate W f =
     (case filter_date f of Some d \<Rightarrow> format_date W d | None \<Rightarrow> format_date W (now_query W))"

definition scopeClauses :: "IFilter \<Rightarrow> SqlQuerySpec \<Rightarrow> SqlQuerySpec" where
  "scopeClauses f q =
     (let q1 = (if filter_enterprise f \<noteq> []
                then addClause '' AND c.enterprise = @enterprise''
                       [(''@enterprise'', PStr (filter_enterprise f))] q
                else q)
      in if filter_organization f \<noteq> []
         then addClause '' AND c.organization = @organization''
                [(''@organization'', PStr (filter_organization f))] q1
         else q1)"

definition teamClause :: "IFilter \<Rightarrow> SqlQuerySpec \<Rightarrow> SqlQuerySpec" where
  "teamClause f q =
     (case filter_team f of
        [] \<Rightarrow> q
      | [team] \<Rightarrow>
          addClause
            '' AND EXISTS (SELECT VALUE 1 FROM seat IN c.seats WHERE seat.assigning_team.name = @team)''
            [(''@team'', PStr team)] q
      | teams \<Rightarrow>
          addClause
            ('' AND EXISTS (SELECT VALUE 1 FROM seat IN c.seats WHERE ''
               @ join_with '' OR ''
                   (map (\<lambda>index. ''seat.assigning_team.name = @team'' @ string_of_nat index)
                      [0 ..< length teams])
               @ '')'')
            (map (\<lambda>(index, team). (''@team'' @ string_of_nat index, PStr team))
               (enumerate 0 teams)) q)"

definition seatsQuery :: "world \<Rightarrow> IFilter \<Rightarrow> SqlQuerySpec" where
  "seatsQuery W f =
     (let q0 = \<lparr>query = ''SELECT * FROM c WHERE c.date = @date'',
                 parameters = [(''@date'', PStr (queryDate W f))]\<rparr>;
          q1 = teamClause f (scopeClauses f q0)
      in if filter_page f \<noteq> 0
         then addClause '' AND c.page = @page'' [(''@page'', PNum (filter_page f))] q1
         else q1)"

text \<open>
  \<^verbatim>\<open>getDataFromDatabase\<close>; every query is made with the constant option
  \<^verbatim>\<open>maxItemCount: 730\<close>, which the store of the model is free to honour.
\<close>

definition getDataFromDatabase ::
  "world \<Rightarrow> IFilter \<Rightarrow> CopilotSeatsData list ServerActionResponse" where
  "getDataFromDatabase W f =
     (let querySpec = seatsQuery W f
      in case seats_history W querySpec of
           Inl e \<Rightarrow> failed (unknownResponseError W e)
         | Inr resources \<Rightarrow>
             if resources = [] \<and> str_includes (query querySpec) ''c.page'' then
               (case seats_history W
                       (querySpec\<lparr>query := removeFirst pagePattern (query querySpec),
                                   parameters :=
                                     filter (\<lambda>param. fst param \<noteq> ''@page'')
                                       (parameters querySpec)\<rparr>) of
                  Inl e \<Rightarrow> failed (unknownResponseError W e)
                | Inr resources' \<Rightarrow> OK (Some resources'))
             else OK (Some resources))"

definition getCopilotSeatsFromDatabase ::
  "world \<Rightarrow> nat \<Rightarrow> IFilter \<Rightarrow> request list
     \<Rightarrow> (CopilotSeatsData ServerActionResponse \<times> request list) option" where
  "getCopilotSeatsFromDatabase W fuel f log =
     (case getDataFromDatabase W f of
        OK (Some data) \<Rightarrow>
          (case aggregateSeatsData W fuel data (Some (filter_team f)) log of
             None \<Rightarrow> None
           | Some ((seatsData, data'), log') \<Rightarrow> Some (OK (Some seatsData), log'))
      | OK None \<Rightarrow> Some (Failed ERROR [''No data found''], log)
      | Failed st es \<Rightarrow> Some (Failed ERROR [''No data found''], log))"

section \<open>Seat fetcher\<close>

definition seatsRequest :: "GitHubConfig \<Rightarrow> string \<Rightarrow> request" where
  "seatsRequest env u =
     \<lparr>url = u, cache_mode = Some ''no-store'',
      headers = [(''Accept'', ''application/vnd.github+json''),
                 (''Authorization'', ''Bearer '' @ token env),
                 (''X-GitHub-Api-Version'', version env)]\<rparr>"

text \<open>
  \<^verbatim>\<open>getDataFromApi\<close> (lines 166-299) and \<^verbatim>\<open>getCopilotSeatsFromApi\<close>
  (lines 301-323).
  The two \<^verbatim>\<open>do ... while\<close> loops of \<^verbatim>\<open>getDataFromApi\<close> differ in the
  first URL and in which of \<open>enterprise\<close> and \<open>organization\<close> the page record
  names; \<open>ent\<close> tells them apart. The body runs before the test, so no fuel
  means no result.
\<close>

fun seatPagesLoop ::
  "world \<Rightarrow> nat \<Rightarrow> GitHubConfig \<Rightarrow> bool \<Rightarrow> string \<Rightarrow> string \<Rightarrow> nat
     \<Rightarrow> CopilotSeatsData list \<Rightarrow> request list
     \<Rightarrow> ((response_error + CopilotSeatsData list) \<times> request list) option" where
  "seatPagesLoop W 0 env ent entity u pageCount collected log = None"
| "seatPagesLoop W (Suc fuel) env ent entity u pageCount collected log =
     (let req = seatsRequest env u; log' = log @ [req]
      in case fetch_seats W log req of
           Rejected e \<Rightarrow> Some (Inl (unknownResponseError W e), log')
         | Fulfilled response \<Rightarrow>
             if \<not> ok response
             then Some (Inl (formatResponseError W entity (status response)), log')
             else (case body response of
                     Inl e \<Rightarrow> Some (Inl (unknownResponseError W e), log')
                   | Inr (seatList, totalSeats) \<Rightarrow>
                       let url' = (case getNextUrlFromLinkHeader (link_header response) of
                                     None \<Rightarrow> []
                                   | Some n \<Rightarrow> n);
                           seatPage =
                             \<lparr>enterprise = (if ent then Some entity else None),
                              organization = (if ent then None else Some entity),
                              seats = seatList,
                              total_seats = totalSeats,
                              total_active_seats = Some 0,
                              page = Some pageCount,
                              has_next_page = Some (\<not> stringIsNullOrEmpty W url'),
                              last_update = None,
                              date = Some [],
                              doc_id = Some []\<rparr>
                       in if \<not> stringIsNullOrEmpty W url'
                          then seatPagesLoop W fuel env ent entity url' (pageCount + 1)
                                 (collected @ [seatPage]) log'
                          else Some (Inr (collected @ [seatPage]), log')))"

text \<open>
  The count over the seats of all pages. The callback reads the clock for each
  seat it classifies; \<open>now_seat W k\<close> is the instant read for the seat at
  position \<open>k\<close> of the flattened list.
\<close>

definition allActiveSeatsCount :: "world \<Rightarrow> CopilotSeatsData list \<Rightarrow> nat" where
  "allActiveSeatsCount W pages =
     length (filter (\<lambda>(k, seat). isActiveSeat W (thirtyDaysAgo W (now_seat W k)) seat)
               (enumerate 0 (concat (map seats pages))))"

definition getDataFromApi ::
  "world \<Rightarrow> nat \<Rightarrow> IFilter \<Rightarrow> request list
     \<Rightarrow> (CopilotSeatsData list ServerActionResponse \<times> request list) option" where
  "getDataFromApi W fuel f log =
     (case ensureGitHubEnvConfig W of
        Inl e \<Rightarrow> Some (failed e, log)
      | Inr env \<Rightarrow>
          (case (if filter_enterprise f \<noteq> []
                 then seatPagesLoop W fuel env True (filter_enterprise f)
                        (''https://api.github.com/enterprises/'' @ filter_enterprise f
                           @ ''/copilot/billing/seats?per_page=100'') 1 [] log
                 else seatPagesLoop W fuel env False (filter_organization f)
                        (''https://api.github.com/orgs/'' @ filter_organization f
                           @ ''/copilot/billing/seats?per_page=100'') 1 [] log) of
             None \<Rightarrow> None
           | Some (Inl e, log') \<Rightarrow> Some (failed e, log')
           | Some (Inr pages, log') \<Rightarrow>
               Some (OK (Some (map (\<lambda>seatPage. seatPage\<lparr>total_active_seats :=
                                        Some (allActiveSeatsCount W pages)\<rparr>) pages)),
                     log')))"

definition getCopilotSeatsFromApi ::
  "world \<Rightarrow> nat \<Rightarrow> IFilter \<Rightarrow> request list
     \<Rightarrow> (CopilotSeatsData ServerActionResponse \<times> request list) option" where
  "getCopilotSeatsFromApi W fuel f log =
     (case getDataFromApi W fuel f log of
        None \<Rightarrow> None
      | Some (OK (Some data), log1) \<Rightarrow>
          (case aggregateSeatsData W fuel data (Some (filter_team f)) log1 of
             None \<Rightarrow> None
           | Some ((seatsData, data'), log') \<Rightarrow> Some (OK (Some seatsData), log'))
      | Some (OK None, log1) \<Rightarrow> Some (Failed ERROR [''No data found''], log1)
      | Some (Failed st es, log1) \<Rightarrow> Some (Failed ERROR [''No data found''], log1))"

section \<open>Entry points\<close>

text \<open>
  \<^verbatim>\<open>getCopilotSeats\<close> (lines 18-52) and \<^verbatim>\<open>getCopilotSeatsManagement\<close>
  (lines 325-386).
  The \<^verbatim>\<open>switch\<close> on \<^verbatim>\<open>process.env.GITHUB_API_SCOPE\<close>, which fills the
  scope of the filter from the configuration. The code writes into the
  caller's filter object; the model hands the filled filter on.
\<close>

definition applyScopeDefaults :: "world \<Rightarrow> GitHubConfig \<Rightarrow> IFilter \<Rightarrow> IFilter" where
  "applyScopeDefaults W env f =
     (if GITHUB_API_SCOPE W = Some ''enterprise''
      then (if stringIsNullOrEmpty W (filter_enterprise f)
            then f\<lparr>filter_enterprise := env_enterprise env\<rparr> else f)
      else (if stringIsNullOrEmpty W (filter_organization f)
            then f\<lparr>filter_organization := env_organization env\<rparr> else f))"

definition getCopilotSeats ::
  "world \<Rightarrow> nat \<Rightarrow> IFilter \<Rightarrow> request list
     \<Rightarrow> (CopilotSeatsData ServerActionResponse \<times> request list) option" where
  "getCopilotSeats W fuel f log =
     (case ensureGitHubEnvConfig W of
        Inl e \<Rightarrow> Some (failed e, log)
      | Inr env \<Rightarrow>
          if cosmosConfiguration W
          then getCopilotSeatsFromDatabase W fuel (applyScopeDefaults W env f) log
          else getCopilotSeatsFromApi W fuel (applyScopeDefaults W env f) log)"

text \<open>
  The response of \<^verbatim>\<open>getCopilotSeatsManagement\<close> is either the object
  literal \<^verbatim>\<open>{}\<close> cast to the seat type, or the retrieved seat data.
\<close>

datatype management_response = EmptyObject | SeatsData CopilotSeatsData

definition getCopilotSeatsManagement ::
  "world \<Rightarrow> nat \<Rightarrow> IFilter \<Rightarrow> request list
     \<Rightarrow> (management_response ServerActionResponse \<times> request list) option" where
  "getCopilotSeatsManagement W fuel f log =
     (case ensureGitHubEnvConfig W of
        Inl e \<Rightarrow> Some (failed e, log)
      | Inr env \<Rightarrow>
          (case (if cosmosConfiguration W
                 then getCopilotSeatsFromDatabase W fuel (applyScopeDefaults W env f) log
                 else getCopilotSeatsFromApi W fuel (applyScopeDefaults W env f) log) of
             None \<Rightarrow> None
           | Some (OK (Some seatsData), log') \<Rightarrow> Some (OK (Some (SeatsData seatsData)), log')
           | Some (OK None, log') \<Rightarrow> Some (OK (Some EmptyObject), log')
           | Some (Failed st es, log') \<Rightarrow> Some (OK (Some EmptyObject), log')))"

section \<open>Team catalog\<close>

text \<open>
  \<^verbatim>\<open>getAllCopilotSeatsTeams\<close> (lines 648-703),
  \<^verbatim>\<open>getAllCopilotSeatsTeamsFromDatabase\<close> (lines 705-753) and
  \<^verbatim>\<open>getAllCopilotSeatsTeamsFromApi\<close> (lines 755-854).
  \<^verbatim>\<open>Array.prototype.findIndex\<close>, with \<open>None\<close> for \<^verbatim>\<open>-1\<close>, and the
  callback of the duplicate removal,
  \<^verbatim>\<open>(t) => (t.id ? t.id === team.id : t.name === team.name)\<close>; an \<open>id\<close> is
  truthy when it is present and not zero.
\<close>

fun findIndex :: "('a \<Rightarrow> bool) \<Rightarrow> 'a list \<Rightarrow> nat option" where
  "findIndex P [] = None"
| "findIndex P (x # xs) = (if P x then Some 0 else map_option Suc (findIndex P xs))"

definition sameTeamKey :: "GitHubTeam \<Rightarrow> GitHubTeam \<Rightarrow> bool" where
  "sameTeamKey team t =
     (if (case team_id t of None \<Rightarrow> False | Some i \<Rightarrow> i \<noteq> 0)
      then team_id t = team_id team
      else name t = name team)"

definition uniqueTeams :: "GitHubTeam list \<Rightarrow> GitHubTeam list" where
  "uniqueTeams teams =
     map snd (filter (\<lambda>(index, team). findIndex (sameTeamKey team) teams = Some index)
                (enumerate 0 teams))"

fun teamsFromSeatsLoop ::
  "world \<Rightarrow> nat \<Rightarrow> GitHubConfig \<Rightarrow> string \<Rightarrow> string \<Rightarrow> GitHubTeam list \<Rightarrow> request list
     \<Rightarrow> ((response_error + GitHubTeam list) \<times> request list) option" where
  "teamsFromSeatsLoop W 0 env entity nextUrl teams log = None"
| "teamsFromSeatsLoop W (Suc fuel) env entity nextUrl teams log =
     (let req = seatsRequest env nextUrl; log' = log @ [req]
      in case fetch_seats W log req of
           Rejected e \<Rightarrow> Some (Inl (unknownResponseError W e), log')
         | Fulfilled response \<Rightarrow>
             if \<not> ok response
             then Some (Inl (formatResponseError W entity (status response)), log')
             else (case body response of
                     Inl e \<Rightarrow> Some (Inl (unknownResponseError W e), log')
                   | Inr (seatList, totalSeats) \<Rightarrow>
                       let teams' = teams @ List.map_filter assigning_team seatList;
                           nextUrl' = (case getNextUrlFromLinkHeader (link_header response) of
                                         None \<Rightarrow> []
                                       | Some n \<Rightarrow> n)
                       in if nextUrl' \<noteq> []
                          then teamsFromSeatsLoop W fuel env entity nextUrl' teams' log'
                          else Some (Inr teams', log')))"

text \<open>
  The fallback over the teams endpoint; its \<^verbatim>\<open>try\<close> keeps the teams
  collected before a failure.
\<close>

fun teamsListingLoop ::
  "world \<Rightarrow> nat \<Rightarrow> GitHubConfig \<Rightarrow> string \<Rightarrow> GitHubTeam list \<Rightarrow> request list
     \<Rightarrow> (GitHubTeam list \<times> request list) option" where
  "teamsListingLoop W 0 env nextTeamsUrl teams log = None"
| "teamsListingLoop W (Suc fuel) env nextTeamsUrl teams log =
     (let req = seatsRequest env nextTeamsUrl; log' = log @ [req]
      in case fetch_teams W log req of
           Rejected e \<Rightarrow> Some (teams, log')
         | Fulfilled response \<Rightarrow>
             if ok response then
               (case body response of
                  Inl e \<Rightarrow> Some (teams, log')
                | Inr teamsData \<Rightarrow>
                    let nextTeamsUrl' =
                          (case getNextUrlFromLinkHeader (link_header response) of
                             None \<Rightarrow> []
                           | Some n \<Rightarrow> n)
                    in if nextTeamsUrl' \<noteq> []
                       then teamsListingLoop W fuel env nextTeamsUrl' (teams @ teamsData) log'
                       else Some (teams @ teamsData, log'))
             else Some (teams, log'))"

definition getAllCopilotSeatsTeamsFromApi ::
  "world \<Rightarrow> nat \<Rightarrow> IFilter \<Rightarrow> request list
     \<Rightarrow> (GitHubTeam list ServerActionResponse \<times> request list) option" where
  "getAllCopilotSeatsTeamsFromApi W fuel f log =
     (case ensureGitHubEnvConfig W of
        Inl e \<Rightarrow> Some (failed e, log)
      | Inr env \<Rightarrow>
          (case teamsFromSeatsLoop W fuel env
                  (if filter_enterprise f \<noteq> [] then filter_enterprise f
                   else filter_organization f)
                  (if filter_enterprise f \<noteq> []
                   then ''https://api.github.com/enterprises/'' @ filter_enterprise f
                          @ ''/copilot/billing/seats?per_page=100''
                   else ''https://api.github.com/orgs/'' @ filter_organization f
                          @ ''/copilot/billing/seats?per_page=100'')
                  [] log of
             None \<Rightarrow> None
           | Some (Inl e, log') \<Rightarrow> Some (failed e, log')
           | Some (Inr teams, log1) \<Rightarrow>
               (case (if teams = [] \<and> filter_enterprise f = []
                      then teamsListingLoop W fuel env
                             (''https://api.github.com/orgs/'' @ filter_organization f
                                @ ''/teams?per_page=100'') teams log1
                      else Some (teams, log1)) of
                  None \<Rightarrow> None
                | Some (teams', log') \<Rightarrow> Some (OK (Some (uniqueTeams teams')), log'))))"

text \<open>
  \<^verbatim>\<open>resources.sort((a, b) => (a.name || "").localeCompare(b.name || ""))\<close>.
  The sort of an array is stable; for a comparator that is consistent its
  result is that of inserting the elements, from the last to the first, each
  before the first element it does not follow.
\<close>

definition nameOrEmpty :: "GitHubTeam \<Rightarrow> string" where
  "nameOrEmpty t = (case name t of Undefined \<Rightarrow> [] | Null \<Rightarrow> [] | Defined n \<Rightarrow> n)"

fun insertTeam :: "world \<Rightarrow> GitHubTeam \<Rightarrow> GitHubTeam list \<Rightarrow> GitHubTeam list" where
  "insertTeam W a [] = [a]"
| "insertTeam W a (b # bs) =
     (if localeCompare W (nameOrEmpty a) (nameOrEmpty b) \<le> 0 then a # b # bs
      else b # insertTeam W a bs)"

definition sortTeams :: "world \<Rightarrow> GitHubTeam list \<Rightarrow> GitHubTeam list" where
  "sortTeams W teams = foldr (insertTeam W) teams []"

definition getAllCopilotSeatsTeamsFromDatabase ::
  "world \<Rightarrow> IFilter \<Rightarrow> GitHubTeam list ServerActionResponse" where
  "getAllCopilotSeatsTeamsFromDatabase W f =
     (case teams_history W
             (scopeClauses f
                \<lparr>query = ''SELECT DISTINCT VALUE seat.assigning_team FROM c JOIN seat IN c.seats WHERE IS_DEFINED(seat.assigning_team) AND seat.assigning_team != null AND c.date = @date'',
                  parameters = [(''@date'', PStr (queryDate W f))]\<rparr>) of
        Inl e \<Rightarrow> failed (unknownResponseError W e)
      | Inr resources \<Rightarrow> OK (Some (sortTeams W resources)))"

definition getAllCopilotSeatsTeams ::
  "world \<Rightarrow> nat \<Rightarrow> IFilter \<Rightarrow> request list
     \<Rightarrow> (GitHubTeam list ServerActionResponse \<times> request list) option" where
  "getAllCopilotSeatsTeams W fuel f log =
     (case ensureGitHubEnvConfig W of
        Inl e \<Rightarrow> Some (failed e, log)
      | Inr env \<Rightarrow>
          if cosmosConfiguration W then
            (case getAllCopilotSeatsTeamsFromDatabase W (applyScopeDefaults W env f) of
               OK (Some teams) \<Rightarrow> Some (OK (Some teams), log)
             | OK None \<Rightarrow> Some (Failed ERROR [''No data found''], log)
             | Failed st es \<Rightarrow> Some (Failed ERROR [''No data found''], log))
          else
            (case getAllCopilotSeatsTeamsFromApi W fuel (applyScopeDefaults W env f) log of
               None \<Rightarrow> None
             | Some (OK (Some teams), log') \<Rightarrow> Some (OK (Some teams), log')
             | Some (OK None, log') \<Rightarrow> Some (Failed ERROR [''No data found''], log')
             | Some (Failed st es, log') \<Rightarrow> Some (Failed ERROR [''No data found''], log')))"

section \<open>Concrete worlds and inputs\<close>

text \<open>
  A world in UTC whose clock shows 2024-03-31T00:00:00Z (1711843200000 ms) at
  every reading, whose store is empty and whose network is down, and variants
  of it; the seats and pages of the example of the specification. \<open>parse_table\<close>
  gives the time values of the three timestamps used.
\<close>

definition parse_table :: "string \<Rightarrow> int option" where
  "parse_table s =
     (if s = ''2024-03-31T00:00:00Z'' then Some 1711843200000
      else if s = ''2024-03-01T00:00:00Z'' then Some 1709251200000
      else if s = ''2024-02-29T00:00:00Z'' then Some 1709164800000
      else None)"

definition mkSeat :: "string \<Rightarrow> string option \<Rightarrow> string option \<Rightarrow> SeatAssignment" where
  "mkSeat l t a =
     \<lparr>assignee = \<lparr>login = l\<rparr>,
      assigning_team = map_option (\<lambda>n. \<lparr>team_id = None, name = Defined n, parent_name = None\<rparr>) t,
      last_activity_at = a\<rparr>"

fun compareCodeUnits :: "string \<Rightarrow> string \<Rightarrow> int" where
  "compareCodeUnits [] [] = 0"
| "compareCodeUnits [] (b # bs) = - 1"
| "compareCodeUnits (a # as) [] = 1"
| "compareCodeUnits (a # as) (b # bs) =
     (if (of_char a :: nat) < of_char b then - 1
      else if (of_char b :: nat) < of_char a then 1
      else compareCodeUnits as bs)"

definition utc_world :: world where
  "utc_world =
     \<lparr>Date_parse = parse_table,
      LocalTZA = (\<lambda>t b. 0),
      format_date = (\<lambda>t. ''2024-03-31''),
      now_query = 1711843200000,
      now_seat = (\<lambda>k. 1711843200000),
      now_backfill = 1711843200000,
      now_totals = 1711843200000,
      ensureGitHubEnvConfig =
        Inr \<lparr>env_enterprise = [], env_organization = ''acme'', token = ''t'', version = ''v''\<rparr>,
      cosmosConfiguration = True,
      GITHUB_API_SCOPE = None,
      stringIsNullOrEmpty = (\<lambda>s. s = []),
      unknownResponseError = (\<lambda>e. (ERROR, [e])),
      formatResponseError = (\<lambda>entity code. (ERROR, [entity])),
      localeCompare = compareCodeUnits,
      seats_history = (\<lambda>q. Inr []),
      teams_history = (\<lambda>q. Inr []),
      fetch_seats = (\<lambda>log r. Rejected ''offline''),
      fetch_members = (\<lambda>log r. Rejected ''offline''),
      fetch_teams = (\<lambda>log r. Rejected ''offline'')\<rparr>"

text \<open>
  The zone of New York around the change to daylight saving time of
  2024-03-10: five hours behind UTC before 07:00 UTC (local times before
  03:00), four hours behind from then on. \<open>dst_world\<close> is the UTC world moved
  there; on 2024-03-31 its offset differs from the one thirty days earlier.
\<close>

definition new_york_tza :: "int \<Rightarrow> bool \<Rightarrow> int" where
  "new_york_tza t isUTC =
     (if isUTC then (if t < 1710054000000 then - 18000000 else - 14400000)
      else (if t < 1710039600000 then - 18000000 else - 14400000))"

definition dst_world :: world where
  "dst_world = utc_world\<lparr>LocalTZA := new_york_tza\<rparr>"

definition seatA :: SeatAssignment where
  "seatA = mkSeat ''A'' (Some ''X'') (Some ''2024-03-31T00:00:00Z'')"

definition seatB :: SeatAssignment where
  "seatB = mkSeat ''B'' None None"

definition seatA2 :: SeatAssignment where
  "seatA2 = mkSeat ''A'' (Some ''X'') (Some ''2024-03-01T00:00:00Z'')"

definition seatC :: SeatAssignment where
  "seatC = mkSeat ''C'' (Some ''Y'') (Some ''2024-03-01T00:00:00Z'')"

definition mkPage :: "nat \<Rightarrow> bool \<Rightarrow> nat option \<Rightarrow> SeatAssignment list \<Rightarrow> CopilotSeatsData" where
  "mkPage n nxt active ss =
     \<lparr>enterprise = None, organization = Some ''acme'', seats = ss, total_seats = 4,
      total_active_seats = active, page = Some n, has_next_page = Some nxt,
      last_update = Some ''2024-03-31T06:00:00Z'', date = Some ''2024-03-31'',
      doc_id = Some ''doc''\<rparr>"

definition page1 :: CopilotSeatsData where
  "page1 = mkPage 1 True (Some 3) [seatA, seatB]"

definition page2 :: CopilotSeatsData where
  "page2 = mkPage 2 False (Some 3) [seatA2, seatC]"

definition legacy_page :: CopilotSeatsData where
  "legacy_page = mkPage 1 False None [seatA, seatB]"

definition repeated_page :: CopilotSeatsData where
  "repeated_page = mkPage 1 False (Some 2) [seatA, seatA2]"

definition filter0 :: IFilter where
  "filter0 =
     \<lparr>filter_date = None, filter_enterprise = [], filter_organization = [],
      filter_team = [], filter_page = 1\<rparr>"

definition store_down_world :: world where
  "store_down_world = utc_world\<lparr>seats_history := (\<lambda>q. Inl ''store unavailable'')\<rparr>"

definition offline_api_world :: world where
  "offline_api_world = utc_world\<lparr>cosmosConfiguration := False\<rparr>"

definition firstPageUrl :: string where
  "firstPageUrl = ''https://api.github.com/orgs/acme/copilot/billing/seats?per_page=100''"







definition teamX :: GitHubTeam where
  "teamX = \<lparr>team_id = None, name = Defined ''X'', parent_name = None\<rparr>"

definition teamY :: GitHubTeam where
  "teamY = \<lparr>team_id = None, name = Defined ''Y'', parent_name = None\<rparr>"

definition one_page ::
  "request list \<Rightarrow> request \<Rightarrow> (SeatAssignment list \<times> nat) fetch_outcome" where
  "one_page log r =
     Fulfilled \<lparr>ok = True, status = 200, link_header = None,
                 body = Inr ([seatC, seatB, seatA, seatA2], 4)\<rparr>"

definition live_teams_world :: world where
  "live_teams_world = utc_world\<lparr>cosmosConfiguration := False, fetch_seats := one_page\<rparr>"

definition stored_teams_world :: world where
  "stored_teams_world = utc_world\<lparr>teams_history := (\<lambda>q. Inr [teamY, teamX])\<rparr>"

section \<open>Theorems\<close>

lemmas sample_defs = page1_def page2_def legacy_page_def repeated_page_def mkPage_def
  seatA_def seatB_def seatA2_def seatC_def mkSeat_def

lemmas time_defs = countActive_def isActiveSeat_def thirtyDaysAgo_def UTC_def LocalTime_def
  msPerDay_def parse_table_def

subsection \<open>Activity window\<close>

lemma thirtyDaysAgo_unfold:
  "thirtyDaysAgo W now =
     now + LocalTZA W now True - 2592000000
       - LocalTZA W (now + LocalTZA W now True - 2592000000) False"
  by (simp add: thirtyDaysAgo_def UTC_def LocalTime_def msPerDay_def)

lemma isActiveSeat_iff:
  "isActiveSeat W th seat \<longleftrightarrow>
     (\<exists>s t. last_activity_at seat = Some s \<and> s \<noteq> [] \<and> Date_parse W s = Some t \<and> th \<le> t)"
  by (auto simp: isActiveSeat_def split: option.splits)

text \<open>
  C2, as amended. A seat is classified active exactly when its
  \<open>last_activity_at\<close> is present (and not the empty string), parses to an
  instant, and that instant is at or after the threshold. The threshold is
  what \<^verbatim>\<open>setDate(getDate() - 30)\<close> gives: the reference instant minus thirty
  days of 86400000 ms, plus the zone's offset at the reference instant, minus
  the zone's offset at the local time thirty days earlier. A seat without
  \<open>last_activity_at\<close> is inactive. Where the two offsets are equal, as in
  every zone of constant offset, the threshold is the reference instant minus
  thirty days exactly: an activity exactly thirty days ago is active, one a
  day earlier is not.
\<close>

theorem activity_window:
  "(isActiveSeat W (thirtyDaysAgo W now) seat \<longleftrightarrow>
      (\<exists>s t. last_activity_at seat = Some s \<and> s \<noteq> [] \<and> Date_parse W s = Some t \<and>
             now - 30 * 86400000
               + (LocalTZA W now True
                  - LocalTZA W (now + LocalTZA W now True - 30 * 86400000) False) \<le> t))
   \<and> (last_activity_at seat = None \<longrightarrow> \<not> isActiveSeat W (thirtyDaysAgo W now) seat)
   \<and> (LocalTZA W now True = LocalTZA W (now + LocalTZA W now True - 30 * 86400000) False \<longrightarrow>
        (isActiveSeat W (thirtyDaysAgo W now) seat \<longleftrightarrow>
           (\<exists>s t. last_activity_at seat = Some s \<and> s \<noteq> [] \<and> Date_parse W s = Some t \<and>
                  now - 30 * 86400000 \<le> t))
        \<and> (\<forall>s. s \<noteq> [] \<and> last_activity_at seat = Some s \<and>
                Date_parse W s = Some (now - 30 * 86400000) \<longrightarrow>
                isActiveSeat W (thirtyDaysAgo W now) seat)
        \<and> (\<forall>s. last_activity_at seat = Some s \<and>
                Date_parse W s = Some (now - 31 * 86400000) \<longrightarrow>
                \<not> isActiveSeat W (thirtyDaysAgo W now) seat))"
proof (intro conjI impI)
  have "thirtyDaysAgo W now = now - 30 * 86400000
               + (LocalTZA W now True
                  - LocalTZA W (now + LocalTZA W now True - 30 * 86400000) False)"
    by (simp add: thirtyDaysAgo_unfold)
  then show "isActiveSeat W (thirtyDaysAgo W now) seat \<longleftrightarrow>
      (\<exists>s t. last_activity_at seat = Some s \<and> s \<noteq> [] \<and> Date_parse W s = Some t \<and>
             now - 30 * 86400000
               + (LocalTZA W now True
                  - LocalTZA W (now + LocalTZA W now True - 30 * 86400000) False) \<le> t)"
    by (simp only: isActiveSeat_iff)
next
  assume "last_activity_at seat = None"
  then show "\<not> isActiveSeat W (thirtyDaysAgo W now) seat"
    by (simp add: isActiveSeat_def)
next
  assume same: "LocalTZA W now True
                  = LocalTZA W (now + LocalTZA W now True - 30 * 86400000) False"
  have th: "thirtyDaysAgo W now = now - 30 * 86400000"
    using same by (simp add: thirtyDaysAgo_unfold)
  show "isActiveSeat W (thirtyDaysAgo W now) seat \<longleftrightarrow>
           (\<exists>s t. last_activity_at seat = Some s \<and> s \<noteq> [] \<and> Date_parse W s = Some t \<and>
                  now - 30 * 86400000 \<le> t)"
    by (simp only: th isActiveSeat_iff)
  show "\<forall>s. s \<noteq> [] \<and> last_activity_at seat = Some s \<and>
                Date_parse W s = Some (now - 30 * 86400000) \<longrightarrow>
                isActiveSeat W (thirtyDaysAgo W now) seat"
    by (simp only: th isActiveSeat_iff) auto
  show "\<forall>s. last_activity_at seat = Some s \<and>
                Date_parse W s = Some (now - 31 * 86400000) \<longrightarrow>
                \<not> isActiveSeat W (thirtyDaysAgo W now) seat"
    by (simp only: th isActiveSeat_iff) auto
qed

theorem activity_window_witness:
  "isActiveSeat utc_world (thirtyDaysAgo utc_world 1711843200000)
     (mkSeat ''A'' None (Some ''2024-03-01T00:00:00Z''))
   \<and> \<not> isActiveSeat utc_world (thirtyDaysAgo utc_world 1711843200000)
     (mkSeat ''B'' None (Some ''2024-02-29T00:00:00Z''))
   \<and> \<not> isActiveSeat utc_world (thirtyDaysAgo utc_world 1711843200000)
     (mkSeat ''C'' None None)"
proof -
  have same: "LocalTZA utc_world 1711843200000 True
      = LocalTZA utc_world (1711843200000 + LocalTZA utc_world 1711843200000 True
                              - 30 * 86400000) False"
    by (simp add: utc_world_def)
  have a: "last_activity_at (mkSeat ''A'' None (Some ''2024-03-01T00:00:00Z''))
             = Some ''2024-03-01T00:00:00Z''
           \<and> Date_parse utc_world ''2024-03-01T00:00:00Z'' = Some (1711843200000 - 30 * 86400000)"
    by (simp add: mkSeat_def utc_world_def parse_table_def)
  have b: "last_activity_at (mkSeat ''B'' None (Some ''2024-02-29T00:00:00Z''))
             = Some ''2024-02-29T00:00:00Z''
           \<and> Date_parse utc_world ''2024-02-29T00:00:00Z'' = Some (1711843200000 - 31 * 86400000)"
    by (simp add: mkSeat_def utc_world_def parse_table_def)
  have c: "last_activity_at (mkSeat ''C'' None None) = None"
    by (simp add: mkSeat_def)
  from activity_window [of utc_world 1711843200000
        "mkSeat ''A'' None (Some ''2024-03-01T00:00:00Z'')"] same a
  have A: "isActiveSeat utc_world (thirtyDaysAgo utc_world 1711843200000)
     (mkSeat ''A'' None (Some ''2024-03-01T00:00:00Z''))"
    by blast
  from activity_window [of utc_world 1711843200000
        "mkSeat ''B'' None (Some ''2024-02-29T00:00:00Z'')"] same b
  have B: "\<not> isActiveSeat utc_world (thirtyDaysAgo utc_world 1711843200000)
     (mkSeat ''B'' None (Some ''2024-02-29T00:00:00Z''))"
    by blast
  from activity_window [of utc_world 1711843200000 "mkSeat ''C'' None None"] c
  have C: "\<not> isActiveSeat utc_world (thirtyDaysAgo utc_world 1711843200000)
     (mkSeat ''C'' None None)"
    by blast
  from A B C show ?thesis by blast
qed

text \<open>
  C2 as stated fails where the zone's offset changes within the thirty days.
  In New York on 2024-03-31T00:00:00Z the threshold is one hour later than
  thirty days before, so a seat last active exactly thirty days before the
  reference instant is classified inactive.
\<close>

theorem dst_boundary_is_inactive:
  "last_activity_at (mkSeat ''A'' None (Some ''2024-03-01T00:00:00Z''))
     = Some ''2024-03-01T00:00:00Z''
   \<and> Date_parse dst_world ''2024-03-01T00:00:00Z'' = Some (1711843200000 - 30 * 86400000)
   \<and> thirtyDaysAgo dst_world 1711843200000 = 1711843200000 - 30 * 86400000 + 3600000
   \<and> \<not> isActiveSeat dst_world (thirtyDaysAgo dst_world 1711843200000)
         (mkSeat ''A'' None (Some ''2024-03-01T00:00:00Z''))"
  by (simp add: dst_world_def utc_world_def new_york_tza_def mkSeat_def parse_table_def
        isActiveSeat_def thirtyDaysAgo_def UTC_def LocalTime_def msPerDay_def)

subsection \<open>Deduplication\<close>

lemma fold_setIfAbsent:
  "map snd (fold setIfAbsent xs m) =
     map snd m @ keepFirstByLogin (filter (\<lambda>y. login (assignee y) \<notin> fst ` set m) xs)"
proof (induction xs arbitrary: m)
  case Nil
  then show ?case by simp
next
  case (Cons x xs)
  show ?case
  proof (cases "login (assignee x) \<in> fst ` set m")
    case True
    then show ?thesis using Cons.IH [of m] by (simp add: setIfAbsent_def)
  next
    case False
    have "filter (\<lambda>y. login (assignee y) \<notin> fst ` set (m @ [(login (assignee x), x)])) xs
        = filter (\<lambda>y. login (assignee y) \<noteq> login (assignee x))
            (filter (\<lambda>y. login (assignee y) \<notin> fst ` set m) xs)"
      by (auto intro: filter_cong)
    then show ?thesis
      using False Cons.IH [of "m @ [(login (assignee x), x)]"] by (simp add: setIfAbsent_def)
  qed
qed

lemma uniqueSeats_keepFirst: "uniqueSeats xs = keepFirstByLogin xs"
  by (simp add: uniqueSeats_def fold_setIfAbsent)

lemma set_keepFirst_subset: "set (keepFirstByLogin xs) \<subseteq> set xs"
  by (induction xs rule: keepFirstByLogin.induct) auto

lemma logins_keepFirst:
  "(\<lambda>s. login (assignee s)) ` set (keepFirstByLogin xs) = (\<lambda>s. login (assignee s)) ` set xs"
  proof (induction xs rule: keepFirstByLogin.induct)
  case 1
  then show ?case by simp
next
  case (2 x xs)
  have "(\<lambda>s. login (assignee s)) ` set (x # xs) =
        insert (login (assignee x))
          ((\<lambda>s. login (assignee s)) ` set (filter (\<lambda>y. login (assignee y) \<noteq> login (assignee x)) xs))"
    by auto
  with 2 show ?case by simp
qed

lemma distinct_keepFirst: "distinct (map (\<lambda>s. login (assignee s)) (keepFirstByLogin xs))"
proof (induction xs rule: keepFirstByLogin.induct)
  case 1
  then show ?case by simp
next
  case (2 x xs)
  have "login (assignee x) \<notin> (\<lambda>s. login (assignee s)) `
          set (keepFirstByLogin (filter (\<lambda>y. login (assignee y) \<noteq> login (assignee x)) xs))"
    using set_keepFirst_subset [of "filter (\<lambda>y. login (assignee y) \<noteq> login (assignee x)) xs"]
    by auto
  with 2 show ?case by simp
qed

lemma find_filter_other:
  "k \<noteq> k' \<Longrightarrow> find (\<lambda>y. f y = k) (filter (\<lambda>y. f y \<noteq> k') xs) = find (\<lambda>y. f y = k) xs"
  by (induction xs) auto

lemma keepFirst_is_first:
  "s \<in> set (keepFirstByLogin xs) \<Longrightarrow>
     find (\<lambda>y. login (assignee y) = login (assignee s)) xs = Some s"
proof (induction xs rule: keepFirstByLogin.induct)
  case 1
  then show ?case by simp
next
  case (2 x xs)
  show ?case
  proof (cases "s = x")
    case True
    then show ?thesis by simp
  next
    case False
    with 2 have mem: "s \<in> set (keepFirstByLogin (filter (\<lambda>y. login (assignee y) \<noteq> login (assignee x)) xs))"
      by simp
    then have ne: "login (assignee s) \<noteq> login (assignee x)"
      using set_keepFirst_subset [of "filter (\<lambda>y. login (assignee y) \<noteq> login (assignee x)) xs"]
      by auto
    from 2(1) [OF mem] ne show ?thesis
      by (simp add: find_filter_other)
  qed
qed

subsection \<open>Aggregation\<close>

lemma aggregate_two_or_more:
  "aggregateSeatsData W fuel (d # d' # rest) teamFilter log =
     (case applyTeamFilter W fuel (concat (map seats (d # d' # rest))) teamFilter log of
        None \<Rightarrow> None
      | Some (filteredSeats, log') \<Rightarrow>
          Some ((\<lparr>enterprise = enterprise d, organization = organization d,
                   seats = keepFirstByLogin filteredSeats,
                   total_seats = length (keepFirstByLogin filteredSeats),
                   total_active_seats =
                     Some (countActive W (now_totals W) (keepFirstByLogin filteredSeats)),
                   page = page d, has_next_page = Some False,
                   last_update = last_update d, date = date d, doc_id = doc_id d\<rparr>,
                 (if total_active_seats d = None
                  then d\<lparr>total_active_seats :=
                           Some (countActive W (now_backfill W) (seats d))\<rparr>
                  else d) # d' # rest), log'))"
  by (simp add: aggregateSeatsData_def Let_def uniqueSeats_keepFirst
           split: option.splits prod.splits)

text \<open>
  C1. For two or more page records the aggregator returns exactly when the team
  filter does (always, when no non-empty team filter is supplied), and then
  its seat list is the flattened seats of the records in input order, team
  filtered, with duplicates by \<open>assignee.login\<close> removed keeping the first;
  \<open>total_seats\<close> is the length of that list, \<open>total_active_seats\<close> the number
  of its seats inside the activity window, \<open>has_next_page\<close> is false and the
  other fields are those of the first record.
\<close>

theorem aggregate_multi_record:
  assumes "2 \<le> length data"
  shows "map_option (\<lambda>out. (fst (fst out), snd out))
           (aggregateSeatsData W fuel data teamFilter log) =
     (case (case teamFilter of
              None \<Rightarrow> Some (concat (map seats data), log)
            | Some ts \<Rightarrow>
                if ts \<noteq> [] then filterSeatsByTeam W fuel (concat (map seats data)) ts log
                else Some (concat (map seats data), log)) of
        None \<Rightarrow> None
      | Some (filteredSeats, log') \<Rightarrow>
          Some (\<lparr>enterprise = enterprise (data ! 0),
                  organization = organization (data ! 0),
                  seats = keepFirstByLogin filteredSeats,
                  total_seats = length (keepFirstByLogin filteredSeats),
                  total_active_seats =
                    Some (length (filter (isActiveSeat W (thirtyDaysAgo W (now_totals W)))
                                    (keepFirstByLogin filteredSeats))),
                  page = page (data ! 0),
                  has_next_page = Some False,
                  last_update = last_update (data ! 0),
                  date = date (data ! 0),
                  doc_id = doc_id (data ! 0)\<rparr>, log'))"
proof -
  from assms obtain d d' rest where data: "data = d # d' # rest"
    by (cases data; cases "tl data") auto
  show ?thesis
    unfolding data aggregate_two_or_more
    by (simp add: applyTeamFilter_def countActive_def split: option.splits prod.splits)
qed

theorem aggregate_multi_record_witness:
  "map_option (\<lambda>out. (fst (fst out), snd out))
     (aggregateSeatsData utc_world 0 [page1, page2] None []) =
   Some (\<lparr>enterprise = None, organization = Some ''acme'',
           seats = [seatA, seatB, seatC], total_seats = 3, total_active_seats = Some 2,
           page = Some 1, has_next_page = Some False,
           last_update = Some ''2024-03-31T06:00:00Z'', date = Some ''2024-03-31'',
           doc_id = Some ''doc''\<rparr>, [])
   \<and> map_option (\<lambda>out. (fst (fst out), snd out))
     (aggregateSeatsData utc_world 0 [page1, page2] (Some [''X'']) []) =
   Some (\<lparr>enterprise = None, organization = Some ''acme'',
           seats = [seatA], total_seats = 1, total_active_seats = Some 1,
           page = Some 1, has_next_page = Some False,
           last_update = Some ''2024-03-31T06:00:00Z'', date = Some ''2024-03-31'',
           doc_id = Some ''doc''\<rparr>, [])"
proof -
  have len: "2 \<le> length [page1, page2]" by simp
  have w: "now_totals utc_world = 1711843200000" "Date_parse utc_world = parse_table"
    "LocalTZA utc_world = (\<lambda>t b. 0)"
    by (simp_all add: utc_world_def)
  show ?thesis
    using aggregate_multi_record [OF len, of utc_world 0 None "[]"]
      aggregate_multi_record [OF len, of utc_world 0 "Some [''X'']" "[]"]
    by (simp add: sample_defs time_defs w filterSeatsByTeam_def hasRequestedTeam_def eval_nat_numeral)
qed

lemma aggregate_empty:
  "aggregateSeatsData W fuel [] teamFilter log = Some ((emptyAggregate, []), log)"
  by (simp add: aggregateSeatsData_def)

lemma aggregate_single:
  "aggregateSeatsData W fuel [d] teamFilter log = Some ((r, data'), log') \<Longrightarrow>
     applyTeamFilter W fuel (seats d) teamFilter log = Some (seats r, log')"
  by (auto simp: aggregateSeatsData_def Let_def split: option.splits prod.splits if_splits)

text \<open>
  C3, as amended. For an input of no record or of two or more records, the seat
  list of a returned aggregate has pairwise distinct logins; for two or more
  records every login of the flattened, team-filtered list occurs in it, and
  each of its seats is the first seat of that list with its login. For an
  input of one record the seat list of the aggregate is the seat list of that
  record, team-filtered when a non-empty team filter is supplied and otherwise
  as it is, repeated logins included.
\<close>

theorem aggregate_distinct_logins:
  assumes "aggregateSeatsData W fuel data teamFilter log = Some ((r, data'), log')"
  shows "(length data \<noteq> 1 \<longrightarrow>
        distinct (map (\<lambda>s. login (assignee s)) (seats r))
        \<and> (data \<noteq> [] \<longrightarrow>
             (\<exists>filteredSeats.
                (case teamFilter of
                   None \<Rightarrow> Some (concat (map seats data), log)
                 | Some ts \<Rightarrow>
                     if ts \<noteq> [] then filterSeatsByTeam W fuel (concat (map seats data)) ts log
                     else Some (concat (map seats data), log)) = Some (filteredSeats, log')
                \<and> (\<lambda>s. login (assignee s)) ` set (seats r)
                    = (\<lambda>s. login (assignee s)) ` set filteredSeats
                \<and> (\<forall>s \<in> set (seats r).
                      find (\<lambda>y. login (assignee y) = login (assignee s)) filteredSeats
                        = Some s))))
     \<and> (length data = 1 \<longrightarrow>
          (case teamFilter of
             None \<Rightarrow> Some (seats (data ! 0), log)
           | Some ts \<Rightarrow>
               if ts \<noteq> [] then filterSeatsByTeam W fuel (seats (data ! 0)) ts log
               else Some (seats (data ! 0), log)) = Some (seats r, log'))"
proof (cases data)
  case Nil
  with assms show ?thesis
    by (auto simp: aggregate_empty emptyAggregate_def)
next
  case (Cons d ds)
  show ?thesis
  proof (cases ds)
    case Nil
    with Cons assms have "applyTeamFilter W fuel (seats d) teamFilter log = Some (seats r, log')"
      by (simp add: aggregate_single)
    then show ?thesis
      unfolding \<open>data = d # ds\<close> Nil
      by (auto simp: applyTeamFilter_def split: option.splits if_splits)
  next
    case (Cons d' rest)
    with \<open>data = d # ds\<close> have data: "data = d # d' # rest" by simp
    from assms obtain filteredSeats where
      f: "applyTeamFilter W fuel (concat (map seats data)) teamFilter log
            = Some (filteredSeats, log')"
      and r: "seats r = keepFirstByLogin filteredSeats"
      unfolding data aggregate_two_or_more
      by (auto split: option.splits prod.splits)
    from f have f': "(case teamFilter of
                  None \<Rightarrow> Some (concat (map seats data), log)
                | Some ts \<Rightarrow>
                    if ts \<noteq> [] then filterSeatsByTeam W fuel (concat (map seats data)) ts log
                    else Some (concat (map seats data), log)) = Some (filteredSeats, log')"
      by (simp add: applyTeamFilter_def)
    have len: "length data \<noteq> 1" using data by simp
    show ?thesis
      using f' len by (auto simp: r distinct_keepFirst logins_keepFirst keepFirst_is_first)
  qed
qed

theorem aggregate_distinct_logins_witness:
  "aggregateSeatsData utc_world 0 [page1, page2] None [] =
     Some ((\<lparr>enterprise = None, organization = Some ''acme'',
           seats = [seatA, seatB, seatC], total_seats = 3, total_active_seats = Some 2,
           page = Some 1, has_next_page = Some False,
           last_update = Some ''2024-03-31T06:00:00Z'', date = Some ''2024-03-31'',
           doc_id = Some ''doc''\<rparr>, [page1, page2]), [])
   \<and> distinct (map (\<lambda>s. login (assignee s)) [seatA, seatB, seatC])
   \<and> find (\<lambda>y. login (assignee y) = login (assignee seatA)) [seatA, seatB, seatA2, seatC]
       = Some seatA
   \<and> aggregateSeatsData utc_world 0 [page1] (Some [''X'']) [] =
     Some ((page1\<lparr>total_seats := 1, total_active_seats := Some 1, seats := [seatA]\<rparr>,
            [page1]), [])
   \<and> filterSeatsByTeam utc_world 0 [seatA, seatB] [''X''] [] = Some ([seatA], [])"
proof -
  have run: "aggregateSeatsData utc_world 0 [page1, page2] None [] =
     Some ((\<lparr>enterprise = None, organization = Some ''acme'',
           seats = [seatA, seatB, seatC], total_seats = 3, total_active_seats = Some 2,
           page = Some 1, has_next_page = Some False,
           last_update = Some ''2024-03-31T06:00:00Z'', date = Some ''2024-03-31'',
           doc_id = Some ''doc''\<rparr>, [page1, page2]), [])"
    unfolding aggregate_two_or_more
    by (simp add: applyTeamFilter_def sample_defs time_defs utc_world_def eval_nat_numeral)
  have run1: "aggregateSeatsData utc_world 0 [page1] (Some [''X'']) [] =
     Some ((page1\<lparr>total_seats := 1, total_active_seats := Some 1, seats := [seatA]\<rparr>,
            [page1]), [])"
    by (simp add: aggregateSeatsData_def applyTeamFilter_def filterSeatsByTeam_def
          hasRequestedTeam_def sample_defs time_defs utc_world_def eval_nat_numeral)
  have multi: "distinct (map (\<lambda>s. login (assignee s)) [seatA, seatB, seatC])
     \<and> find (\<lambda>y. login (assignee y) = login (assignee seatA)) [seatA, seatB, seatA2, seatC]
       = Some seatA"
    using aggregate_distinct_logins [OF run]
    by (simp add: page1_def page2_def mkPage_def)
  have single: "filterSeatsByTeam utc_world 0 [seatA, seatB] [''X''] [] = Some ([seatA], [])"
    using aggregate_distinct_logins [OF run1]
    by (simp add: page1_def mkPage_def)
  from run run1 multi single show ?thesis by blast
qed

text \<open>
  C3 as stated fails for a single record: one record whose two seats both
  have the login \<open>A\<close> is returned with both seats.
\<close>

theorem single_record_keeps_repeated_logins:
  "aggregateSeatsData utc_world 0 [repeated_page] None [] =
     Some ((repeated_page\<lparr>total_seats := 2, total_active_seats := Some 2\<rparr>,
            [repeated_page]), [])
   \<and> seats (repeated_page\<lparr>total_seats := 2, total_active_seats := Some 2\<rparr>) = [seatA, seatA2]
   \<and> login (assignee seatA) = login (assignee seatA2)
   \<and> \<not> distinct (map login (map assignee
          (seats (repeated_page\<lparr>total_seats := 2, total_active_seats := Some 2\<rparr>))))"
  by (simp add: aggregateSeatsData_def applyTeamFilter_def sample_defs time_defs utc_world_def
        eval_nat_numeral)

text \<open>
  C7, as amended. The aggregator changes no input record, with one exception:
  when the first record has no \<open>total_active_seats\<close>, that field of the first
  record is overwritten with the number of the record's own seats inside the
  activity window. Every other field and every other record is left as it was.
\<close>

theorem aggregate_input_frame:
  assumes "aggregateSeatsData W fuel data teamFilter log = Some ((r, data'), log')"
  shows "data' =
     (if data \<noteq> [] \<and> total_active_seats (data ! 0) = None
      then data[0 := (data ! 0)\<lparr>total_active_seats :=
             Some (length (filter (isActiveSeat W (thirtyDaysAgo W (now_backfill W)))
                             (seats (data ! 0))))\<rparr>]
      else data)"
  using assms
  by (cases data)
     (auto simp: aggregateSeatsData_def Let_def countActive_def
           split: option.splits prod.splits if_splits)

theorem aggregate_input_frame_witness:
  "[legacy_page\<lparr>total_active_seats := Some 1\<rparr>] =
     (if [legacy_page] \<noteq> [] \<and> total_active_seats ([legacy_page] ! 0) = None
      then [legacy_page][0 := ([legacy_page] ! 0)\<lparr>total_active_seats :=
             Some (length (filter (isActiveSeat utc_world
                                     (thirtyDaysAgo utc_world (now_backfill utc_world)))
                             (seats ([legacy_page] ! 0))))\<rparr>]
      else [legacy_page])"
proof -
  have run: "aggregateSeatsData utc_world 0 [legacy_page] None [] =
     Some ((legacy_page\<lparr>total_seats := 2, total_active_seats := Some 1\<rparr>,
            [legacy_page\<lparr>total_active_seats := Some 1\<rparr>]), [])"
    by (simp add: aggregateSeatsData_def applyTeamFilter_def sample_defs time_defs utc_world_def
        eval_nat_numeral)
  show ?thesis
    by (rule aggregate_input_frame [OF run])
qed

text \<open>
  C7 as stated fails for a record without \<open>total_active_seats\<close>: the input
  array comes back with the field of its first record filled in.
\<close>

theorem backfill_overwrites_first_record:
  "aggregateSeatsData utc_world 0 [legacy_page] None [] =
     Some ((legacy_page\<lparr>total_seats := 2, total_active_seats := Some 1\<rparr>,
            [legacy_page\<lparr>total_active_seats := Some 1\<rparr>]), [])
   \<and> total_active_seats legacy_page = None
   \<and> [legacy_page\<lparr>total_active_seats := Some 1\<rparr>] \<noteq> [legacy_page]"
  by (simp add: aggregateSeatsData_def applyTeamFilter_def sample_defs time_defs utc_world_def
        eval_nat_numeral)

subsection \<open>Team filter\<close>

lemma hasRequestedTeam_iff:
  "hasRequestedTeam teamFilter seat \<longleftrightarrow>
     (\<exists>team n. assigning_team seat = Some team \<and> name team = Defined n \<and> n \<noteq> []
               \<and> n \<in> set teamFilter)"
  by (auto simp: hasRequestedTeam_def split: option.splits nullable.splits)

text \<open>
  C4. When some seat carries an assigning team whose name is present (defined
  and not empty, the code's truthiness test) and requested, the team filter
  returns exactly the seats with such a team, in their order, whatever the
  world and the fuel, and the request log is returned as it was given: the
  membership lookups of the second tier are not made.
\<close>

theorem team_filter_direct_match:
  assumes "\<exists>seat \<in> set seatList. \<exists>team n.
             assigning_team seat = Some team \<and> name team = Defined n \<and> n \<noteq> []
             \<and> n \<in> set teamFilter"
  shows "teamFilter \<noteq> []
     \<and> filterSeatsByTeam W fuel seatList teamFilter log =
         Some (filter (\<lambda>seat. \<exists>team n.
                         assigning_team seat = Some team \<and> name team = Defined n \<and> n \<noteq> []
                         \<and> n \<in> set teamFilter) seatList, log)"
proof -
  have eq: "hasRequestedTeam teamFilter =
      (\<lambda>seat. \<exists>team n. assigning_team seat = Some team \<and> name team = Defined n \<and> n \<noteq> []
                 \<and> n \<in> set teamFilter)"
    by (rule ext) (rule hasRequestedTeam_iff)
  from assms have ne: "filter (hasRequestedTeam teamFilter) seatList \<noteq> []"
    unfolding eq by (auto simp: filter_empty_conv)
  from assms have "teamFilter \<noteq> []" by auto
  moreover have "filterSeatsByTeam W fuel seatList teamFilter log =
      Some (filter (hasRequestedTeam teamFilter) seatList, log)"
    using ne by (simp add: filterSeatsByTeam_def Let_def)
  ultimately show ?thesis unfolding eq by simp
qed

theorem team_filter_direct_match_witness:
  "filterSeatsByTeam utc_world 0 [seatA, seatB, seatA2, seatC] [''X''] [] =
     Some ([seatA, seatA2], [])"
proof -
  have h: "\<exists>seat \<in> set [seatA, seatB, seatA2, seatC]. \<exists>team n.
             assigning_team seat = Some team \<and> name team = Defined n \<and> n \<noteq> []
             \<and> n \<in> set [''X'']"
    by (simp add: seatA_def mkSeat_def)
  have f: "filter (\<lambda>seat. \<exists>team n.
                         assigning_team seat = Some team \<and> name team = Defined n \<and> n \<noteq> []
                         \<and> n \<in> set [''X'']) [seatA, seatB, seatA2, seatC] = [seatA, seatA2]"
    by (simp add: sample_defs)
  show ?thesis
    using team_filter_direct_match [OF h, of utc_world 0 "[]"] unfolding f by simp
qed

subsection \<open>Failing lookups\<close>

lemma getTeamMembers_loop_fails:
  assumes "\<forall>l q. lookupFails (fetch_members W l q)"
  shows "\<exists>log'. getTeamMembers_loop W (Suc fuel) tok u teamMembers log = Some (teamMembers, log')"
proof (cases u)
  case None
  then show ?thesis by simp
next
  case (Some v)
  have "lookupFails (fetch_members W log (membersRequest tok v))"
    using assms by blast
  then show ?thesis
    unfolding Some
    by (auto simp: lookupFails_def Let_def split: fetch_outcome.splits sum.splits)
qed

lemma getTeamMembers_fails:
  assumes "\<forall>l q. lookupFails (fetch_members W l q)"
  shows "\<exists>log'. getTeamMembers W (Suc fuel) org tok t teamMembers log = Some (teamMembers, log')"
  unfolding getTeamMembers_def by (rule getTeamMembers_loop_fails [OF assms])

lemma childTeamsLoop_fails:
  assumes "\<forall>l q. lookupFails (fetch_members W l q)"
  shows "\<exists>log'. childTeamsLoop W (Suc fuel) org tok ts teamMembers log = Some (teamMembers, log')"
proof (induction ts arbitrary: log)
  case Nil
  then show ?case by simp
next
  case (Cons t ts)
  obtain l1 where "getTeamMembers W (Suc fuel) org tok
      (case name t of Undefined \<Rightarrow> ''undefined'' | Null \<Rightarrow> ''null'' | Defined n \<Rightarrow> n)
      teamMembers log = Some (teamMembers, l1)"
    using getTeamMembers_fails [OF assms] by blast
  then show ?case using Cons.IH [of l1] by simp
qed

lemma getChildTeamMembers_fails:
  assumes "\<forall>l q. lookupFails (fetch_members W l q)"
  shows "\<exists>log'. getChildTeamMembers W (Suc fuel) org tok t teamMembers log
                  = Some (teamMembers, log')"
proof (cases "t = ''Birdeye_team''")
  case True
  obtain l1 where a: "getTeamMembers W (Suc fuel) org tok ''Insights_team'' teamMembers log
      = Some (teamMembers, l1)"
    using getTeamMembers_fails [OF assms] by blast
  obtain l2 where b: "getTeamMembers W (Suc fuel) org tok ''labs_team'' teamMembers l1
      = Some (teamMembers, l2)"
    using getTeamMembers_fails [OF assms] by blast
  show ?thesis using True a b by (simp add: getChildTeamMembers_def)
next
  case False
  then show ?thesis
    using childTeamsLoop_fails [OF assms]
    by (auto simp: getChildTeamMembers_def Let_def split: fetch_outcome.splits sum.splits)
qed

lemma teamFilterLoop_fails:
  assumes "\<forall>l q. lookupFails (fetch_members W l q)"
  shows "\<exists>log'. teamFilterLoop W (Suc fuel) org tok ts teamMembers log = Some (teamMembers, log')"
proof (induction ts arbitrary: log)
  case Nil
  then show ?case by simp
next
  case (Cons t ts)
  obtain l1 where a: "getTeamMembers W (Suc fuel) org tok t teamMembers log = Some (teamMembers, l1)"
    using getTeamMembers_fails [OF assms] by blast
  obtain l2 where b: "getChildTeamMembers W (Suc fuel) org tok t teamMembers l1
      = Some (teamMembers, l2)"
    using getChildTeamMembers_fails [OF assms] by blast
  show ?case using a b Cons.IH [of l2] by simp
qed

text \<open>
  C5. When no seat carries a requested team, the team filter returns the empty
  list whenever the configuration is not available, whenever the lookups end
  with an empty membership set, and in particular whenever every member lookup
  fails (is rejected, answers with an error status, or has no readable body);
  in the last case it does return. The result is then never a non-empty input
  list.
\<close>

theorem team_filter_never_unfiltered:
  assumes "\<forall>seat \<in> set seatList. \<not> (\<exists>team n.
             assigning_team seat = Some team \<and> name team = Defined n \<and> n \<noteq> []
             \<and> n \<in> set teamFilter)"
  shows "(\<forall>e. ensureGitHubEnvConfig W = Inl e \<longrightarrow>
            filterSeatsByTeam W fuel seatList teamFilter log = Some ([], log))
     \<and> (\<forall>env log'. ensureGitHubEnvConfig W = Inr env \<and>
            teamFilterLoop W fuel (env_organization env) (token env) teamFilter {} log
              = Some ({}, log') \<longrightarrow>
            filterSeatsByTeam W fuel seatList teamFilter log = Some ([], log'))
     \<and> (0 < fuel \<and> (\<forall>l q. lookupFails (fetch_members W l q)) \<longrightarrow>
            (\<exists>log'. filterSeatsByTeam W fuel seatList teamFilter log = Some ([], log')))
     \<and> (\<forall>out log'. filterSeatsByTeam W fuel seatList teamFilter log = Some (out, log') \<and>
            (\<forall>l q. lookupFails (fetch_members W l q)) \<and> seatList \<noteq> [] \<longrightarrow> out \<noteq> seatList)"
proof -
  have none: "filter (hasRequestedTeam teamFilter) seatList = []"
    using assms by (auto simp: filter_empty_conv hasRequestedTeam_iff)
  have 1: "filterSeatsByTeam W fuel seatList teamFilter log = Some ([], log)"
    if "ensureGitHubEnvConfig W = Inl e" for e
    using that none by (simp add: filterSeatsByTeam_def)
  have 2: "filterSeatsByTeam W fuel seatList teamFilter log = Some ([], log')"
    if "ensureGitHubEnvConfig W = Inr env"
      and "teamFilterLoop W fuel (env_organization env) (token env) teamFilter {} log = Some ({}, log')"
    for env log'
    using that none by (simp add: filterSeatsByTeam_def)
  have 3: "\<exists>log'. filterSeatsByTeam W fuel seatList teamFilter log = Some ([], log')"
    if pos: "0 < fuel" and fails: "\<forall>l q. lookupFails (fetch_members W l q)"
  proof (cases "ensureGitHubEnvConfig W")
    case (Inl e)
    then show ?thesis using 1 by blast
  next
    case (Inr env)
    from pos obtain f where "fuel = Suc f" by (cases fuel) auto
    then obtain log' where
      "teamFilterLoop W fuel (env_organization env) (token env) teamFilter {} log = Some ({}, log')"
      using teamFilterLoop_fails [OF fails] by blast
    with Inr 2 show ?thesis by blast
  qed
  have 4: "out \<noteq> seatList"
    if "filterSeatsByTeam W fuel seatList teamFilter log = Some (out, log')"
      and "\<forall>l q. lookupFails (fetch_members W l q)" and "seatList \<noteq> []"
    for out log'
  proof (cases fuel)
    case 0
    show ?thesis
    proof (cases "ensureGitHubEnvConfig W")
      case (Inl e)
      with 1 that show ?thesis by auto
    next
      case (Inr env)
      show ?thesis
      proof (cases teamFilter)
        case Nil
        with that Inr none show ?thesis by (auto simp: filterSeatsByTeam_def)
      next
        case (Cons t ts)
        with that Inr none 0 show ?thesis
          by (auto simp: filterSeatsByTeam_def getTeamMembers_def)
      qed
    qed
  next
    case (Suc f)
    with 3 that obtain l where "filterSeatsByTeam W fuel seatList teamFilter log = Some ([], l)"
      by blast
    with that show ?thesis by auto
  qed
  from 1 2 3 4 show ?thesis by blast
qed

theorem team_filter_never_unfiltered_witness:
  "filterSeatsByTeam utc_world 1 [seatB] [''X''] [] =
     Some ([], [membersRequest ''t'' ''https://api.github.com/orgs/acme/teams/X/members?per_page=100'',
                membersRequest ''t'' ''https://api.github.com/orgs/acme/teams?per_page=100''])"
proof -
  have h: "\<forall>seat \<in> set [seatB]. \<not> (\<exists>team n.
             assigning_team seat = Some team \<and> name team = Defined n \<and> n \<noteq> []
             \<and> n \<in> set [''X''])"
    by (simp add: seatB_def mkSeat_def)
  define cfg where
    "cfg = \<lparr>env_enterprise = [], env_organization = ''acme'', token = ''t'', version = ''v''\<rparr>"
  have env: "ensureGitHubEnvConfig utc_world = Inr cfg"
    by (simp add: utc_world_def cfg_def)
  have run: "teamFilterLoop utc_world 1 (env_organization cfg) (token cfg) [''X''] {} [] =
     Some ({}, [membersRequest ''t'' ''https://api.github.com/orgs/acme/teams/X/members?per_page=100'',
                membersRequest ''t'' ''https://api.github.com/orgs/acme/teams?per_page=100''])"
    by (simp add: getTeamMembers_def getChildTeamMembers_def utc_world_def Let_def cfg_def)
  from team_filter_never_unfiltered [OF h, of utc_world 1 "[]"] env run
  show ?thesis
    by blast
qed

subsection \<open>Fetching\<close>









subsection \<open>Retrieval from the store\<close>

text \<open>
  C8, as amended. When the query of the historical store completes and yields
  no record, the retrieval from the store returns a success whose response is
  the empty aggregate: no seats, \<open>total_seats\<close> and \<open>total_active_seats\<close> zero,
  the other fields absent. The \<open>No data found\<close> error is what it returns when
  the store query itself fails, at the first attempt or at the retry.
\<close>

theorem empty_store_result_is_success:
  "(getDataFromDatabase W f = OK (Some []) \<longrightarrow>
      getCopilotSeatsFromDatabase W fuel f log =
        Some (OK (Some \<lparr>enterprise = None, organization = None, seats = [], total_seats = 0,
                         total_active_seats = Some 0, page = None, has_next_page = None,
                         last_update = None, date = None, doc_id = None\<rparr>), log))
   \<and> ((\<forall>q. seats_history W q = Inr []) \<longrightarrow> getDataFromDatabase W f = OK (Some []))
   \<and> (\<forall>e. seats_history W (seatsQuery W f) = Inl e \<longrightarrow>
          getCopilotSeatsFromDatabase W fuel f log = Some (Failed ERROR [''No data found''], log))
   \<and> (\<forall>st es. getDataFromDatabase W f = Failed st es \<longrightarrow>
          getCopilotSeatsFromDatabase W fuel f log = Some (Failed ERROR [''No data found''], log))"
proof -
  have a: "(getDataFromDatabase W f = OK (Some []) \<longrightarrow>
      getCopilotSeatsFromDatabase W fuel f log =
        Some (OK (Some \<lparr>enterprise = None, organization = None, seats = [], total_seats = 0,
                         total_active_seats = Some 0, page = None, has_next_page = None,
                         last_update = None, date = None, doc_id = None\<rparr>), log))
   \<and> ((\<forall>q. seats_history W q = Inr []) \<longrightarrow> getDataFromDatabase W f = OK (Some []))
   \<and> (\<forall>e. seats_history W (seatsQuery W f) = Inl e \<longrightarrow>
          getCopilotSeatsFromDatabase W fuel f log = Some (Failed ERROR [''No data found''], log))"
    by (auto simp: getCopilotSeatsFromDatabase_def getDataFromDatabase_def Let_def failed_def
          aggregateSeatsData_def emptyAggregate_def)
  have b: "\<forall>st es. getDataFromDatabase W f = Failed st es \<longrightarrow>
          getCopilotSeatsFromDatabase W fuel f log = Some (Failed ERROR [''No data found''], log)"
    by (simp add: getCopilotSeatsFromDatabase_def)
  from a b show ?thesis by blast
qed

theorem empty_store_result_is_success_witness:
  "getCopilotSeatsFromDatabase utc_world 0 filter0 [] =
     Some (OK (Some \<lparr>enterprise = None, organization = None, seats = [], total_seats = 0,
                      total_active_seats = Some 0, page = None, has_next_page = None,
                      last_update = None, date = None, doc_id = None\<rparr>), [])
   \<and> getCopilotSeatsFromDatabase store_down_world 0 filter0 [] =
     Some (Failed ERROR [''No data found''], [])"
proof -
  have empty: "\<forall>q. seats_history utc_world q = Inr []"
    by (simp add: utc_world_def)
  have down: "seats_history store_down_world (seatsQuery store_down_world filter0)
      = Inl ''store unavailable''"
    by (simp add: store_down_world_def)
  from empty_store_result_is_success [of utc_world filter0 0 "[]"] empty
  have 1: "getCopilotSeatsFromDatabase utc_world 0 filter0 [] =
     Some (OK (Some \<lparr>enterprise = None, organization = None, seats = [], total_seats = 0,
                      total_active_seats = Some 0, page = None, has_next_page = None,
                      last_update = None, date = None, doc_id = None\<rparr>), [])"
    by blast
  from empty_store_result_is_success [of store_down_world filter0 0 "[]"] down
  have 2: "getCopilotSeatsFromDatabase store_down_world 0 filter0 [] =
     Some (Failed ERROR [''No data found''], [])"
    by blast
  from 1 2 show ?thesis by blast
qed

text \<open>
  C8 as stated fails: with a store that answers every query with no record,
  the retrieval is a success carrying the empty aggregate; with a store that
  throws, it is the \<open>No data found\<close> error.
\<close>

theorem empty_store_is_not_an_error:
  "seats_history utc_world (seatsQuery utc_world filter0) = Inr []
   \<and> getDataFromDatabase utc_world filter0 = OK (Some [])
   \<and> getCopilotSeatsFromDatabase utc_world 0 filter0 [] = Some (OK (Some emptyAggregate), [])
   \<and> getCopilotSeats utc_world 0 filter0 [] = Some (OK (Some emptyAggregate), [])
   \<and> getCopilotSeats store_down_world 0 filter0 [] = Some (Failed ERROR [''No data found''], [])"
proof -
  have e: "seats_history utc_world = (\<lambda>q. Inr [])"
    "ensureGitHubEnvConfig utc_world =
      Inr \<lparr>env_enterprise = [], env_organization = ''acme'', token = ''t'', version = ''v''\<rparr>"
    "cosmosConfiguration utc_world"
    by (simp_all add: utc_world_def)
  have d: "seats_history store_down_world = (\<lambda>q. Inl ''store unavailable'')"
    "ensureGitHubEnvConfig store_down_world =
      Inr \<lparr>env_enterprise = [], env_organization = ''acme'', token = ''t'', version = ''v''\<rparr>"
    "cosmosConfiguration store_down_world"
    by (simp_all add: store_down_world_def utc_world_def)
  have g: "getDataFromDatabase utc_world f = OK (Some [])" for f
    by (simp add: getDataFromDatabase_def e Let_def)
  have h: "getDataFromDatabase store_down_world f
             = failed (unknownResponseError store_down_world ''store unavailable'')" for f
    by (simp add: getDataFromDatabase_def d Let_def)
  show ?thesis
    by (simp add: getCopilotSeats_def getCopilotSeatsFromDatabase_def g h e d
          aggregateSeatsData_def failed_def)
qed

subsection \<open>Seats management\<close>

text \<open>
  C10. With the configuration available, whenever the underlying retrieval
  (from the store when it is configured, from the API otherwise) returns an
  error or no response, the management operation returns status \<open>OK\<close> with
  the empty object, and the main operation returns that error result as it
  is.
\<close>

theorem management_swallows_failure:
  assumes "ensureGitHubEnvConfig W = Inr env"
    and "(if cosmosConfiguration W
          then getCopilotSeatsFromDatabase W fuel (applyScopeDefaults W env f) log
          else getCopilotSeatsFromApi W fuel (applyScopeDefaults W env f) log) = Some (res, log')"
    and "\<forall>seatsData. res \<noteq> OK (Some seatsData)"
  shows "getCopilotSeatsManagement W fuel f log = Some (OK (Some EmptyObject), log')
     \<and> getCopilotSeats W fuel f log = Some (res, log')"
proof -
  from assms(3) have "res = OK None \<or> (\<exists>st es. res = Failed st es)"
    by (cases res) (auto split: option.splits)
  then show ?thesis
    using assms(1,2)
    by (auto simp: getCopilotSeatsManagement_def getCopilotSeats_def)
qed

theorem management_swallows_failure_witness:
  "getCopilotSeatsManagement store_down_world 0 filter0 [] = Some (OK (Some EmptyObject), [])
   \<and> getCopilotSeats store_down_world 0 filter0 [] = Some (Failed ERROR [''No data found''], [])
   \<and> getCopilotSeatsManagement offline_api_world 1 filter0 [] =
       Some (OK (Some EmptyObject),
             [seatsRequest \<lparr>env_enterprise = [], env_organization = ''acme'', token = ''t'',
                             version = ''v''\<rparr> firstPageUrl])
   \<and> getCopilotSeats offline_api_world 1 filter0 [] =
       Some (Failed ERROR [''No data found''],
             [seatsRequest \<lparr>env_enterprise = [], env_organization = ''acme'', token = ''t'',
                             version = ''v''\<rparr> firstPageUrl])"
proof -
  define cfg where
    "cfg = \<lparr>env_enterprise = [], env_organization = ''acme'', token = ''t'', version = ''v''\<rparr>"
  have d: "seats_history store_down_world = (\<lambda>q. Inl ''store unavailable'')"
    "ensureGitHubEnvConfig store_down_world = Inr cfg"
    "cosmosConfiguration store_down_world"
    by (simp_all add: store_down_world_def utc_world_def cfg_def)
  have a: "ensureGitHubEnvConfig offline_api_world = Inr cfg"
    "\<not> cosmosConfiguration offline_api_world"
    "fetch_seats offline_api_world = (\<lambda>log r. Rejected ''offline'')"
    "stringIsNullOrEmpty offline_api_world = (\<lambda>s. s = [])"
    "GITHUB_API_SCOPE offline_api_world = None"
    by (simp_all add: offline_api_world_def utc_world_def cfg_def)
  have r1: "(if cosmosConfiguration store_down_world
          then getCopilotSeatsFromDatabase store_down_world 0
                 (applyScopeDefaults store_down_world cfg filter0) []
          else getCopilotSeatsFromApi store_down_world 0
                 (applyScopeDefaults store_down_world cfg filter0) [])
        = Some (Failed ERROR [''No data found''], [])"
    by (simp add: d getCopilotSeatsFromDatabase_def getDataFromDatabase_def Let_def failed_def)
  have r2: "(if cosmosConfiguration offline_api_world
          then getCopilotSeatsFromDatabase offline_api_world 1
                 (applyScopeDefaults offline_api_world cfg filter0) []
          else getCopilotSeatsFromApi offline_api_world 1
                 (applyScopeDefaults offline_api_world cfg filter0) [])
        = Some (Failed ERROR [''No data found''], [seatsRequest cfg firstPageUrl])"
    by (simp add: a getCopilotSeatsFromApi_def getDataFromApi_def applyScopeDefaults_def
          filter0_def cfg_def firstPageUrl_def failed_def Let_def)
  have bad: "\<forall>seatsData. Failed ERROR [''No data found''] \<noteq> OK (Some seatsData)"
    by simp
  from management_swallows_failure [OF d(2) r1 bad]
    management_swallows_failure [OF a(1) r2 bad]
  show ?thesis
    by (simp add: cfg_def)
qed

subsection \<open>Team catalog\<close>

text \<open>
  C9 at a concrete input. On the live path, with one seat page whose seats
  carry the teams \<open>Y\<close>, \<open>X\<close>, \<open>X\<close> in this order, the catalog is returned
  without duplicates but in the order of first occurrence, \<open>Y\<close> before \<open>X\<close>;
  on the store path the same two teams, yielded in the same order by the
  store, are returned sorted, \<open>X\<close> before \<open>Y\<close>.
\<close>

theorem live_catalog_keeps_arrival_order:
  "getAllCopilotSeatsTeams live_teams_world 1 filter0 [] =
     Some (OK (Some [teamY, teamX]),
           [seatsRequest \<lparr>env_enterprise = [], env_organization = ''acme'', token = ''t'',
                           version = ''v''\<rparr> firstPageUrl])
   \<and> getAllCopilotSeatsTeams stored_teams_world 0 filter0 [] = Some (OK (Some [teamX, teamY]), [])
   \<and> compareCodeUnits ''X'' ''Y'' = - 1"
proof -
  have l: "ensureGitHubEnvConfig live_teams_world =
      Inr \<lparr>env_enterprise = [], env_organization = ''acme'', token = ''t'', version = ''v''\<rparr>"
    "\<not> cosmosConfiguration live_teams_world"
    "fetch_seats live_teams_world = one_page"
    "stringIsNullOrEmpty live_teams_world = (\<lambda>s. s = [])"
    "GITHUB_API_SCOPE live_teams_world = None"
    by (simp_all add: live_teams_world_def utc_world_def)
  have s: "ensureGitHubEnvConfig stored_teams_world =
      Inr \<lparr>env_enterprise = [], env_organization = ''acme'', token = ''t'', version = ''v''\<rparr>"
    "cosmosConfiguration stored_teams_world"
    "teams_history stored_teams_world = (\<lambda>q. Inr [teamY, teamX])"
    "localeCompare stored_teams_world = compareCodeUnits"
    by (simp_all add: stored_teams_world_def utc_world_def)
  have nl: "getNextUrlFromLinkHeader None = None" by (simp add: getNextUrlFromLinkHeader_def)
  have 1: "getAllCopilotSeatsTeams live_teams_world 1 filter0 [] =
     Some (OK (Some [teamY, teamX]),
           [seatsRequest \<lparr>env_enterprise = [], env_organization = ''acme'', token = ''t'',
                           version = ''v''\<rparr> firstPageUrl])"
    by (simp add: getAllCopilotSeatsTeams_def getAllCopilotSeatsTeamsFromApi_def l nl
          applyScopeDefaults_def filter0_def one_page_def Let_def firstPageUrl_def
          List.map_filter_def uniqueTeams_def sameTeamKey_def sample_defs teamX_def teamY_def)
  have 2: "getAllCopilotSeatsTeams stored_teams_world 0 filter0 [] =
     Some (OK (Some [teamX, teamY]), [])"
    by (simp add: getAllCopilotSeatsTeams_def getAllCopilotSeatsTeamsFromDatabase_def s
          sortTeams_def nameOrEmpty_def teamX_def teamY_def)
  have 3: "compareCodeUnits ''X'' ''Y'' = - 1" by simp
  from 1 2 3 show ?thesis by blast
qed

end
